theory Spec2Isabelle
  imports Main "HOL-Library.Multiset" "HOL-Library.Word"
begin

section \<open>Common notions\<close>

text \<open>Nodes live in an arena indexed by addresses; a pointer is an optional address,
  \<open>None\<close> being the null pointer.\<close>

type_synonym addr = nat

datatype error = EmptyAccess | OutOfRange | RangeError | LogicError | OverflowError

text \<open>The comparator of the typed facade: \<open>_Comp()(a, b)\<close>.  The heaps are specified
  for strict weak orders.\<close>

definition strict_weak_order :: "('a \<Rightarrow> 'a \<Rightarrow> bool) \<Rightarrow> bool" where
  "strict_weak_order lt \<longleftrightarrow>
     (\<forall>a. \<not> lt a a) \<and>
     (\<forall>a b c. lt a b \<longrightarrow> lt b c \<longrightarrow> lt a c) \<and>
     (\<forall>a b c. \<not> lt a b \<longrightarrow> \<not> lt b c \<longrightarrow> \<not> lt a c)"

section \<open>MD3: the min-dist heap with parent pointers (mdqueue3.hpp, mdqueue3.cpp)\<close>

subsection \<open>Data model\<close>

text \<open>\<open>MinDistHeapT::BaseNodeT\<close>.  The payload of \<open>_XNode\<close> is kept in a separate
  value table, since the untyped kernel only sees nodes and the predicate \<open>_pred\<close>.\<close>

record md_node =
  md_lptr :: "addr option"
  md_rptr :: "addr option"
  md_pptr :: "addr option"
  md_dist :: int

type_synonym md_store = "addr \<Rightarrow> md_node"

text \<open>The second argument of \<open>_merge\<close> is a pointer to a pointer: the left or the right
  child slot of a node, or the local variable \<open>hold\<close> of \<open>_build\<close>.\<close>

datatype md_link = LinkL addr | LinkR addr | LinkHold

definition md_link_get :: "md_store \<Rightarrow> addr option \<Rightarrow> md_link \<Rightarrow> addr option" where
  "md_link_get s hold link =
     (case link of LinkL a \<Rightarrow> md_lptr (s a) | LinkR a \<Rightarrow> md_rptr (s a) | LinkHold \<Rightarrow> hold)"

definition md_link_set ::
  "md_store \<Rightarrow> addr option \<Rightarrow> md_link \<Rightarrow> addr option \<Rightarrow> md_store \<times> addr option" where
  "md_link_set s hold link v =
     (case link of
        LinkL a \<Rightarrow> (s(a := (s a)\<lparr>md_lptr := v\<rparr>), hold)
      | LinkR a \<Rightarrow> (s(a := (s a)\<lparr>md_rptr := v\<rparr>), hold)
      | LinkHold \<Rightarrow> (s, v))"

definition md_set_pptr :: "md_store \<Rightarrow> addr option \<Rightarrow> addr option \<Rightarrow> md_store" where
  "md_set_pptr s n p = (case n of None \<Rightarrow> s | Some a \<Rightarrow> s(a := (s a)\<lparr>md_pptr := p\<rparr>))"

definition md_dist_of :: "md_store \<Rightarrow> addr option \<Rightarrow> int" where
  "md_dist_of s p = (case p of None \<Rightarrow> 0 | Some a \<Rightarrow> md_dist (s a))"

subsection \<open>Kernel\<close>

definition md_singleton :: "md_store \<Rightarrow> addr option \<Rightarrow> md_store" where
  "md_singleton s node =
     (case node of None \<Rightarrow> s
      | Some a \<Rightarrow> s(a := \<lparr>md_lptr = None, md_rptr = None, md_pptr = None, md_dist = 1\<rparr>))"

text \<open>\<open>_yield\<close>: cut the whole tree from the sentinel \<open>h\<close>.\<close>

definition md_yield :: "md_store \<Rightarrow> addr \<Rightarrow> md_store \<times> addr option" where
  "md_yield s h =
     (let temp = md_lptr (s h);
          s1 = s(h := (s h)\<lparr>md_lptr := None\<rparr>)
      in (md_set_pptr s1 temp None, temp))"

definition md_lgraft :: "md_store \<Rightarrow> addr option \<Rightarrow> addr option \<Rightarrow> md_store \<times> addr option" where
  "md_lgraft s a b =
     (let s1 = (case a of None \<Rightarrow> s | Some x \<Rightarrow> s(x := (s x)\<lparr>md_lptr := b\<rparr>));
          s2 = (case b of None \<Rightarrow> s1 | Some y \<Rightarrow> s1(y := (s1 y)\<lparr>md_pptr := a\<rparr>))
      in (s2, if a \<noteq> None then a else b))"

definition md_rgraft :: "md_store \<Rightarrow> addr option \<Rightarrow> addr option \<Rightarrow> md_store \<times> addr option" where
  "md_rgraft s a b =
     (let s1 = (case a of None \<Rightarrow> s | Some x \<Rightarrow> s(x := (s x)\<lparr>md_rptr := b\<rparr>));
          s2 = (case b of None \<Rightarrow> s1 | Some y \<Rightarrow> s1(y := (s1 y)\<lparr>md_pptr := a\<rparr>))
      in (s2, if a \<noteq> None then a else b))"

definition md_pcons :: "md_store \<Rightarrow> addr option \<Rightarrow> addr option \<Rightarrow> md_store \<times> addr option" where
  "md_pcons s a b =
     (case a of None \<Rightarrow> (s, b) | Some x \<Rightarrow> (s(x := (s x)\<lparr>md_pptr := b\<rparr>), a))"

text \<open>The side into which \<open>_merge\<close> descends below the surviving node \<open>a\<close>.\<close>

definition md_side :: "md_store \<Rightarrow> addr \<Rightarrow> md_link" where
  "md_side s a =
     (case md_lptr (s a) of
        None \<Rightarrow> LinkL a
      | Some l \<Rightarrow>
          (case md_rptr (s a) of
             None \<Rightarrow> LinkR a
           | Some r \<Rightarrow> if md_dist (s r) > md_dist (s l) then LinkL a else LinkR a))"

text \<open>Phase I of \<open>_merge\<close>: the loop state is the store, the local \<open>hold\<close>, \<open>root\<close>,
  \<open>link\<close>, the two heaps and the step counter.\<close>

partial_function (option) md_merge_phase1 ::
  "(addr \<Rightarrow> addr \<Rightarrow> bool) \<Rightarrow> md_store \<Rightarrow> addr option \<Rightarrow> addr option \<Rightarrow> md_link \<Rightarrow>
   addr option \<Rightarrow> addr option \<Rightarrow> int \<Rightarrow>
   (md_store \<times> addr option \<times> addr option \<times> md_link \<times> addr option \<times> addr option \<times> int) option"
where
  "md_merge_phase1 pred s hold root link h1 h2 steps =
     (case h1 of
        None \<Rightarrow> Some (s, hold, root, link, h1, h2, steps)
      | Some a1 \<Rightarrow>
          (case h2 of
             None \<Rightarrow> Some (s, hold, root, link, h1, h2, steps)
           | Some a2 \<Rightarrow>
               if pred a2 a1 then
                 (case md_link_set s hold link h2 of (s1, hold1) \<Rightarrow>
                    let s2 = md_set_pptr s1 h2 root;
                        link' = md_side s2 a2
                    in md_merge_phase1 pred s2 hold1 h2 link' h1
                         (md_link_get s2 hold1 link') (steps + 1))
               else
                 (case md_link_set s hold link h1 of (s1, hold1) \<Rightarrow>
                    let s2 = md_set_pptr s1 h1 root;
                        link' = md_side s2 a1
                    in md_merge_phase1 pred s2 hold1 h1 link'
                         (md_link_get s2 hold1 link') h2 (steps + 1))))"

declare md_merge_phase1.simps [code]

text \<open>Phase III of \<open>_merge\<close>: the walk up the parent pointers.\<close>

partial_function (option) md_merge_phase3 ::
  "md_store \<Rightarrow> addr option \<Rightarrow> int \<Rightarrow> md_store option"
where
  "md_merge_phase3 s root steps =
     (case root of
        None \<Rightarrow> Some s
      | Some a \<Rightarrow>
          let lcw = md_dist_of s (md_lptr (s a));
              rcw = md_dist_of s (md_rptr (s a));
              nnw = min lcw rcw + 1
          in if steps - 1 < 0 \<and> nnw = md_dist (s a) then Some s
             else md_merge_phase3 (s(a := (s a)\<lparr>md_dist := nnw\<rparr>)) (md_pptr (s a)) (steps - 1))"

declare md_merge_phase3.simps [code]

definition md_merge ::
  "(addr \<Rightarrow> addr \<Rightarrow> bool) \<Rightarrow> md_store \<Rightarrow> addr option \<Rightarrow> md_link \<Rightarrow>
   addr option \<Rightarrow> addr option \<Rightarrow> (md_store \<times> addr option) option"
where
  "md_merge pred s root link h1 h2 =
     (case md_merge_phase1 pred s None root link h1 h2 1 of
        None \<Rightarrow> None
      | Some (s1, hold1, root1, link1, h1', h2', steps) \<Rightarrow>
          let h = (if h1' \<noteq> None then h1' else h2') in
          (case md_link_set s1 hold1 link1 h of (s2, hold2) \<Rightarrow>
             (case md_merge_phase3 (md_set_pptr s2 h root1) root1 steps of
                None \<Rightarrow> None
              | Some s3 \<Rightarrow> Some (s3, hold2))))"


text \<open>\<open>_ncut\<close>: replace \<open>node\<close> by the heap made of its children.  The assertion
  \<open>node && node->_m_pptr\<close> is a precondition; without a parent the model leaves the
  store alone.\<close>

definition md_ncut ::
  "(addr \<Rightarrow> addr \<Rightarrow> bool) \<Rightarrow> md_store \<Rightarrow> addr \<Rightarrow> md_store option" where
  "md_ncut pred s node =
     (case md_pptr (s node) of
        None \<Rightarrow> Some s
      | Some root \<Rightarrow>
          (case (if Some node = md_lptr (s root)
                 then md_merge pred s (Some root) (LinkL root) (md_lptr (s node)) (md_rptr (s node))
                 else md_merge pred s (Some root) (LinkR root) (md_lptr (s node)) (md_rptr (s node)))
           of None \<Rightarrow> None
            | Some (s1, _) \<Rightarrow>
                Some (s1(node := (s1 node)\<lparr>md_lptr := None, md_rptr := None, md_pptr := None\<rparr>))))"

text \<open>\<open>_tcut\<close>: both branches of the source pass \<open>&root->_m_lptr\<close>.\<close>

definition md_tcut ::
  "(addr \<Rightarrow> addr \<Rightarrow> bool) \<Rightarrow> md_store \<Rightarrow> addr \<Rightarrow> md_store option" where
  "md_tcut pred s node =
     (case md_pptr (s node) of
        None \<Rightarrow> Some s
      | Some root \<Rightarrow>
          (case (if Some node = md_lptr (s root)
                 then md_merge pred s (Some root) (LinkL root) None None
                 else md_merge pred s (Some root) (LinkL root) None None)
           of None \<Rightarrow> None
            | Some (s1, _) \<Rightarrow> Some (s1(node := (s1 node)\<lparr>md_pptr := None\<rparr>))))"

text \<open>\<open>_build\<close>: the inner \<open>do ... while\<close> loop melds adjacent pairs of the list chained
  through the parent pointers; the outer loop repeats until one root is left.  \<open>_merge\<close>
  always stores into \<open>hold\<close> here, because both operands are present.\<close>

partial_function (option) md_build_pairs ::
  "(addr \<Rightarrow> addr \<Rightarrow> bool) \<Rightarrow> md_store \<Rightarrow> addr \<Rightarrow> addr \<Rightarrow> addr option \<Rightarrow>
   (md_store \<times> addr option \<times> addr option) option"
where
  "md_build_pairs pred s h1 h2 list =
     (let head = md_pptr (s h2) in
      case md_merge pred s None LinkHold (Some h1) (Some h2) of
        None \<Rightarrow> None
      | Some (s1, hold) \<Rightarrow>
          let s2 = md_set_pptr s1 hold list in
          (case head of
             None \<Rightarrow> Some (s2, head, hold)
           | Some a \<Rightarrow>
               (case md_pptr (s2 a) of
                  None \<Rightarrow> Some (s2, head, hold)
                | Some b \<Rightarrow> md_build_pairs pred s2 a b hold)))"

declare md_build_pairs.simps [code]

partial_function (option) md_build ::
  "(addr \<Rightarrow> addr \<Rightarrow> bool) \<Rightarrow> md_store \<Rightarrow> addr option \<Rightarrow> (md_store \<times> addr option) option"
where
  "md_build pred s head =
     (case head of
        None \<Rightarrow> Some (s, head)
      | Some a \<Rightarrow>
          (case md_pptr (s a) of
             None \<Rightarrow> Some (s, head)
           | Some b \<Rightarrow>
               (case md_build_pairs pred s a b None of
                  None \<Rightarrow> None
                | Some (s1, head1, list) \<Rightarrow>
                    (case head1 of
                       Some c \<Rightarrow> md_build pred (s1(c := (s1 c)\<lparr>md_pptr := list\<rparr>)) head1
                     | None \<Rightarrow> md_build pred s1 list))))"

declare md_build.simps [code]

text \<open>The operations on the heap whose sentinel \<open>_m_root\<close> lives at address \<open>h\<close>.
  Where the source passes both \<open>_m_root._m_lptr\<close> and a call that changes the store as
  arguments of \<open>_merge\<close>, C++ leaves the order of their evaluation open; the model
  evaluates the call first and reads the root slot afterwards.\<close>

definition md_kpush ::
  "(addr \<Rightarrow> addr \<Rightarrow> bool) \<Rightarrow> md_store \<Rightarrow> addr \<Rightarrow> addr \<Rightarrow> md_store option" where
  "md_kpush pred s h node =
     (let s1 = md_singleton s (Some node) in
      map_option fst (md_merge pred s1 (Some h) (LinkL h) (md_lptr (s1 h)) (Some node)))"

definition md_push_list ::
  "(addr \<Rightarrow> addr \<Rightarrow> bool) \<Rightarrow> md_store \<Rightarrow> addr \<Rightarrow> addr option \<Rightarrow> md_store option" where
  "md_push_list pred s h head =
     (case md_build pred s head of
        None \<Rightarrow> None
      | Some (s1, b) \<Rightarrow> map_option fst (md_merge pred s1 (Some h) (LinkL h) (md_lptr (s1 h)) b))"

definition md_kpop ::
  "(addr \<Rightarrow> addr \<Rightarrow> bool) \<Rightarrow> md_store \<Rightarrow> addr \<Rightarrow> (md_store \<times> addr option) option" where
  "md_kpop pred s h =
     (case md_lptr (s h) of
        None \<Rightarrow> Some (s, None)
      | Some retv \<Rightarrow>
          (case md_merge pred s (Some h) (LinkL h) (md_lptr (s retv)) (md_rptr (s retv)) of
             None \<Rightarrow> None
           | Some (s1, _) \<Rightarrow>
               Some (s1(retv := \<lparr>md_lptr = None, md_rptr = None, md_pptr = None, md_dist = 0\<rparr>),
                     Some retv)))"

definition md_kdecrease ::
  "(addr \<Rightarrow> addr \<Rightarrow> bool) \<Rightarrow> md_store \<Rightarrow> addr \<Rightarrow> addr \<Rightarrow> md_store option" where
  "md_kdecrease pred s h node =
     (if Some node \<noteq> md_lptr (s h) then
        (case md_tcut pred s node of
           None \<Rightarrow> None
         | Some s1 \<Rightarrow>
             map_option fst (md_merge pred s1 (Some h) (LinkL h) (md_lptr (s1 h)) (Some node)))
      else Some s)"

definition md_reinsert ::
  "(addr \<Rightarrow> addr \<Rightarrow> bool) \<Rightarrow> md_store \<Rightarrow> addr \<Rightarrow> addr \<Rightarrow> md_store option" where
  "md_reinsert pred s h node =
     (case md_tcut pred s node of
        None \<Rightarrow> None
      | Some s1 \<Rightarrow>
          map_option fst (md_merge pred s1 (Some h) (LinkL h) (md_lptr (s1 h)) (Some node)))"


text \<open>\<open>_shred_pop\<close>: returns the store, the new \<open>pref\<close> and the popped node.\<close>

definition md_shred_pop ::
  "md_store \<Rightarrow> addr option \<Rightarrow> md_store \<times> addr option \<times> addr option" where
  "md_shred_pop s pref =
     (case pref of
        None \<Rightarrow> (s, None, None)
      | Some retv \<Rightarrow>
          let l = md_lptr (s retv); r = md_rptr (s retv);
              p0 = md_pptr (s retv);
              s1 = (case l of None \<Rightarrow> s | Some x \<Rightarrow> s(x := (s x)\<lparr>md_pptr := p0\<rparr>));
              p1 = (case l of None \<Rightarrow> p0 | Some x \<Rightarrow> l);
              s2 = (case r of None \<Rightarrow> s1 | Some y \<Rightarrow> s1(y := (s1 y)\<lparr>md_pptr := p1\<rparr>));
              p2 = (case r of None \<Rightarrow> p1 | Some y \<Rightarrow> r)
          in (s2, p2, pref))"

subsection \<open>Iteration support\<close>

text \<open>The loop of \<open>_abseil\<close>, entered with \<open>node\<close> and \<open>next\<close>.\<close>

partial_function (option) md_abseil_loop :: "md_store \<Rightarrow> addr \<Rightarrow> addr option \<Rightarrow> addr option"
where
  "md_abseil_loop s node next =
     (case next of
        None \<Rightarrow> Some node
      | Some n \<Rightarrow>
          md_abseil_loop s n
            (if md_rptr (s n) \<noteq> None then md_rptr (s n) else md_lptr (s n)))"

declare md_abseil_loop.simps [code]

definition md_abseil :: "md_store \<Rightarrow> addr \<Rightarrow> addr option" where
  "md_abseil s node = md_abseil_loop s node (md_lptr (s node))"

definition md_iter_succ :: "md_store \<Rightarrow> addr \<Rightarrow> addr option" where
  "md_iter_succ s node =
     (case md_pptr (s node) of
        None \<Rightarrow> Some node
      | Some next \<Rightarrow> if Some node = md_rptr (s next) then md_abseil s next else Some next)"

text \<open>The ascent of \<open>_iter_pred\<close>; the result is the final value of \<open>prev\<close>.\<close>

partial_function (option) md_iter_pred_loop ::
  "md_store \<Rightarrow> addr \<Rightarrow> addr option \<Rightarrow> addr option option"
where
  "md_iter_pred_loop s node prev =
     (case prev of
        None \<Rightarrow> Some None
      | Some p \<Rightarrow>
          if Some node = md_rptr (s p) \<or> md_rptr (s p) = None
          then md_iter_pred_loop s p (md_pptr (s p))
          else Some prev)"

declare md_iter_pred_loop.simps [code]

definition md_iter_pred :: "md_store \<Rightarrow> addr \<Rightarrow> (error + addr) option" where
  "md_iter_pred s node =
     (case md_lptr (s node) of
        Some l \<Rightarrow> Some (Inr l)
      | None \<Rightarrow>
          (case md_rptr (s node) of
             Some r \<Rightarrow> Some (Inr r)
           | None \<Rightarrow>
               (case md_iter_pred_loop s node (md_pptr (s node)) of
                  None \<Rightarrow> None
                | Some None \<Rightarrow> Some (Inl OutOfRange)
                | Some (Some p) \<Rightarrow>
                    (case md_rptr (s p) of
                       None \<Rightarrow> Some (Inl OutOfRange)
                     | Some r \<Rightarrow> Some (Inr r)))))"

definition md_iter_head :: "md_store \<Rightarrow> addr \<Rightarrow> addr option" where
  "md_iter_head s h = md_abseil s h"

definition md_iter_tail :: "md_store \<Rightarrow> addr \<Rightarrow> error + addr" where
  "md_iter_tail s h = (case md_lptr (s h) of None \<Rightarrow> Inl OutOfRange | Some n \<Rightarrow> Inr n)"

definition md_iter_same :: "md_store \<Rightarrow> addr \<Rightarrow> addr \<Rightarrow> bool" where
  "md_iter_same s p1 p2 \<longleftrightarrow> p1 = p2 \<or> (md_pptr (s p1) = None \<and> md_pptr (s p2) = None)"


subsection \<open>The typed facade \<open>MinDistHeap\<close>\<close>

text \<open>The world holds the arena of nodes, the payload of every \<open>_XNode\<close>, the next
  address the allocator hands out and the nodes destroyed so far.  A heap object is
  identified with the address of its sentinel \<open>_m_root\<close>.\<close>

record 'a md_world =
  md_nodes :: md_store
  md_vals :: "addr \<Rightarrow> 'a"
  md_brk :: addr
  md_dead :: "addr list"

definition md_pred :: "('a \<Rightarrow> 'a \<Rightarrow> bool) \<Rightarrow> 'a md_world \<Rightarrow> addr \<Rightarrow> addr \<Rightarrow> bool" where
  "md_pred lt w n1 n2 = lt (md_vals w n1) (md_vals w n2)"

definition md_fresh_node :: md_node where
  "md_fresh_node = \<lparr>md_lptr = None, md_rptr = None, md_pptr = None, md_dist = 1\<rparr>"

definition md_create_node :: "'a md_world \<Rightarrow> 'a \<Rightarrow> 'a md_world \<times> addr" where
  "md_create_node w v =
     (w\<lparr>md_nodes := (md_nodes w)(md_brk w := md_fresh_node),
        md_vals := (md_vals w)(md_brk w := v),
        md_brk := md_brk w + 1\<rparr>, md_brk w)"

definition md_destroy_node :: "'a md_world \<Rightarrow> addr option \<Rightarrow> 'a md_world" where
  "md_destroy_node w n = (case n of None \<Rightarrow> w | Some a \<Rightarrow> w\<lparr>md_dead := a # md_dead w\<rparr>)"

text \<open>The constructor \<open>MinDistHeap()\<close>: a heap object with the sentinel \<open>_m_root\<close>.\<close>

definition md_new :: "'a md_world \<Rightarrow> 'a md_world \<times> addr" where
  "md_new w =
     (w\<lparr>md_nodes := (md_nodes w)(md_brk w := md_fresh_node), md_brk := md_brk w + 1\<rparr>, md_brk w)"

definition md_empty_world :: "'a \<Rightarrow> 'a md_world" where
  "md_empty_world d =
     \<lparr>md_nodes = (\<lambda>_. md_fresh_node), md_vals = (\<lambda>_. d), md_brk = 0, md_dead = []\<rparr>"

definition md_push :: "('a \<Rightarrow> 'a \<Rightarrow> bool) \<Rightarrow> 'a md_world \<Rightarrow> addr \<Rightarrow> 'a \<Rightarrow> ('a md_world \<times> addr) option"
where
  "md_push lt w h v =
     (case md_create_node w v of (w1, n) \<Rightarrow>
        (case md_kpush (md_pred lt w1) (md_nodes w1) h n of
           None \<Rightarrow> None
         | Some s \<Rightarrow> Some (w1\<lparr>md_nodes := s\<rparr>, n)))"

text \<open>\<open>push(first, last)\<close>: the nodes are chained through the parent pointers, the last
  value first.\<close>

fun md_chain :: "'a md_world \<Rightarrow> addr option \<Rightarrow> 'a list \<Rightarrow> 'a md_world \<times> addr option" where
  "md_chain w head [] = (w, head)"
| "md_chain w head (v # vs) =
     (case md_create_node w v of (w1, n) \<Rightarrow>
        (case md_pcons (md_nodes w1) (Some n) head of (s, head1) \<Rightarrow>
           md_chain (w1\<lparr>md_nodes := s\<rparr>) head1 vs))"

definition md_push_range ::
  "('a \<Rightarrow> 'a \<Rightarrow> bool) \<Rightarrow> 'a md_world \<Rightarrow> addr \<Rightarrow> 'a list \<Rightarrow> 'a md_world option" where
  "md_push_range lt w h vs =
     (case md_chain w None vs of (w1, head) \<Rightarrow>
        (case md_push_list (md_pred lt w1) (md_nodes w1) h head of
           None \<Rightarrow> None
         | Some s \<Rightarrow> Some (w1\<lparr>md_nodes := s\<rparr>)))"

definition md_front :: "'a md_world \<Rightarrow> addr \<Rightarrow> error + 'a" where
  "md_front w h =
     (case md_lptr (md_nodes w h) of
        None \<Rightarrow> Inl EmptyAccess
      | Some n \<Rightarrow> Inr (md_vals w n))"

definition md_pop :: "('a \<Rightarrow> 'a \<Rightarrow> bool) \<Rightarrow> 'a md_world \<Rightarrow> addr \<Rightarrow> 'a md_world option" where
  "md_pop lt w h =
     (case md_kpop (md_pred lt w) (md_nodes w) h of
        None \<Rightarrow> None
      | Some (s, n) \<Rightarrow> Some (md_destroy_node (w\<lparr>md_nodes := s\<rparr>) n))"

definition md_empty :: "'a md_world \<Rightarrow> addr \<Rightarrow> bool" where
  "md_empty w h \<longleftrightarrow> md_lptr (md_nodes w h) = None"

definition md_merge_heaps ::
  "('a \<Rightarrow> 'a \<Rightarrow> bool) \<Rightarrow> 'a md_world \<Rightarrow> addr \<Rightarrow> addr \<Rightarrow> 'a md_world option" where
  "md_merge_heaps lt w h rhs =
     (if h \<noteq> rhs then
        (case md_yield (md_nodes w) rhs of (s1, t) \<Rightarrow>
           (case md_merge (md_pred lt w) s1 (Some h) (LinkL h) (md_lptr (s1 h)) t of
              None \<Rightarrow> None
            | Some (s2, _) \<Rightarrow> Some (w\<lparr>md_nodes := s2\<rparr>)))
      else Some w)"

definition md_begin :: "'a md_world \<Rightarrow> addr \<Rightarrow> addr option" where
  "md_begin w h = md_iter_head (md_nodes w) h"

definition md_end :: "'a md_world \<Rightarrow> addr \<Rightarrow> addr" where
  "md_end w h = h"

definition md_remove ::
  "('a \<Rightarrow> 'a \<Rightarrow> bool) \<Rightarrow> 'a md_world \<Rightarrow> addr \<Rightarrow> ('a md_world \<times> addr) option" where
  "md_remove lt w itpos =
     (case md_iter_succ (md_nodes w) itpos of
        None \<Rightarrow> None
      | Some succ \<Rightarrow>
          (case md_ncut (md_pred lt w) (md_nodes w) itpos of
             None \<Rightarrow> None
           | Some s \<Rightarrow> Some (md_destroy_node (w\<lparr>md_nodes := s\<rparr>) (Some itpos), succ)))"

definition md_decrease ::
  "('a \<Rightarrow> 'a \<Rightarrow> bool) \<Rightarrow> 'a md_world \<Rightarrow> addr \<Rightarrow> addr \<Rightarrow> 'a md_world option" where
  "md_decrease lt w h itpos =
     map_option (\<lambda>s. w\<lparr>md_nodes := s\<rparr>) (md_kdecrease (md_pred lt w) (md_nodes w) h itpos)"

definition md_readjust ::
  "('a \<Rightarrow> 'a \<Rightarrow> bool) \<Rightarrow> 'a md_world \<Rightarrow> addr \<Rightarrow> addr \<Rightarrow> 'a md_world option" where
  "md_readjust lt w h itpos =
     map_option (\<lambda>s. w\<lparr>md_nodes := s\<rparr>) (md_reinsert (md_pred lt w) (md_nodes w) h itpos)"

text \<open>The caller changes the key through the reference an iterator gives.\<close>

definition md_set_key :: "'a md_world \<Rightarrow> addr \<Rightarrow> 'a \<Rightarrow> 'a md_world" where
  "md_set_key w n v = w\<lparr>md_vals := (md_vals w)(n := v)\<rparr>"


section \<open>PH3: the pairing heap with back links (phqueue3.hpp, phqueue3.cpp)\<close>

subsection \<open>Data model\<close>

record ph_node =
  ph_prev :: "addr option"
  ph_next :: "addr option"
  ph_down :: "addr option"

type_synonym ph_store = "addr \<Rightarrow> ph_node"

subsection \<open>Kernel\<close>

definition ph_cons :: "ph_store \<Rightarrow> addr option \<Rightarrow> addr option \<Rightarrow> ph_store \<times> addr option" where
  "ph_cons s a b =
     (let s1 = (case a of None \<Rightarrow> s | Some x \<Rightarrow> s(x := (s x)\<lparr>ph_next := b\<rparr>));
          s2 = (case b of None \<Rightarrow> s1 | Some y \<Rightarrow> s1(y := (s1 y)\<lparr>ph_prev := a\<rparr>))
      in (s2, if a \<noteq> None then a else b))"

definition ph_dunk :: "ph_store \<Rightarrow> addr option \<Rightarrow> addr option \<Rightarrow> ph_store \<times> addr option" where
  "ph_dunk s a b =
     (let s1 = (case a of None \<Rightarrow> s | Some x \<Rightarrow> s(x := (s x)\<lparr>ph_down := b\<rparr>));
          s2 = (case b of None \<Rightarrow> s1 | Some y \<Rightarrow> s1(y := (s1 y)\<lparr>ph_prev := a\<rparr>))
      in (s2, if a \<noteq> None then a else b))"

definition ph_yield :: "ph_store \<Rightarrow> addr \<Rightarrow> ph_store \<times> addr option" where
  "ph_yield s h =
     (let temp = ph_down (s h);
          s1 = s(h := (s h)\<lparr>ph_down := None\<rparr>)
      in ((case temp of None \<Rightarrow> s1 | Some t \<Rightarrow> s1(t := (s1 t)\<lparr>ph_prev := None\<rparr>)), temp))"

definition ph_merge ::
  "(addr \<Rightarrow> addr \<Rightarrow> bool) \<Rightarrow> ph_store \<Rightarrow> addr option \<Rightarrow> addr option \<Rightarrow> ph_store \<times> addr option"
where
  "ph_merge pred s h1 h2 =
     (case (case h1 of
              None \<Rightarrow> (s, h2)
            | Some a1 \<Rightarrow>
                (case h2 of
                   None \<Rightarrow> (s, h1)
                 | Some a2 \<Rightarrow>
                     if \<not> pred a2 a1 then
                       (case ph_cons s h2 (ph_down (s a1)) of (s1, c) \<Rightarrow> ph_dunk s1 h1 c)
                     else
                       (case ph_cons s h1 (ph_down (s a2)) of (s1, c) \<Rightarrow> ph_dunk s1 h2 c)))
      of (s2, retv) \<Rightarrow>
        (case retv of
           None \<Rightarrow> (s2, retv)
         | Some r \<Rightarrow> (s2(r := (s2 r)\<lparr>ph_prev := None, ph_next := None\<rparr>), retv)))"

text \<open>\<open>_build\<close>: the first loop melds pairs of siblings and pushes them on the stack \<open>q\<close>,
  the second loop melds the stack into \<open>node\<close>.\<close>

partial_function (option) ph_build_pairs ::
  "(addr \<Rightarrow> addr \<Rightarrow> bool) \<Rightarrow> ph_store \<Rightarrow> addr option \<Rightarrow> addr option \<Rightarrow>
   (ph_store \<times> addr option \<times> addr option) option"
where
  "ph_build_pairs pred s node q =
     (case node of
        None \<Rightarrow> Some (s, node, q)
      | Some a \<Rightarrow>
          (case ph_next (s a) of
             None \<Rightarrow> Some (s, node, q)
           | Some b \<Rightarrow>
               let node' = ph_next (s b) in
               (case ph_merge pred s (Some a) (Some b) of (s1, m) \<Rightarrow>
                  (case ph_cons s1 m q of (s2, q') \<Rightarrow>
                     ph_build_pairs pred s2 node' q'))))"

declare ph_build_pairs.simps [code]

partial_function (option) ph_build_fold ::
  "(addr \<Rightarrow> addr \<Rightarrow> bool) \<Rightarrow> ph_store \<Rightarrow> addr \<Rightarrow> addr option \<Rightarrow>
   (ph_store \<times> addr option) option"
where
  "ph_build_fold pred s a node =
     (let q = ph_next (s a) in
      case ph_merge pred s (Some a) node of (s1, node') \<Rightarrow>
        (case q of
           None \<Rightarrow> Some (s1, node')
         | Some a' \<Rightarrow> ph_build_fold pred s1 a' node'))"

declare ph_build_fold.simps [code]

definition ph_build ::
  "(addr \<Rightarrow> addr \<Rightarrow> bool) \<Rightarrow> ph_store \<Rightarrow> addr option \<Rightarrow> (ph_store \<times> addr option) option"
where
  "ph_build pred s node0 =
     (case ph_build_pairs pred s node0 None of
        None \<Rightarrow> None
      | Some (s1, node, q) \<Rightarrow>
          (case q of
             Some a \<Rightarrow> ph_build_fold pred s1 a node
           | None \<Rightarrow>
               (case node of
                  None \<Rightarrow> Some (s1, node)
                | Some n \<Rightarrow> Some (s1(n := (s1 n)\<lparr>ph_prev := None\<rparr>), node))))"

text \<open>\<open>_ncut\<close> and \<open>_tcut\<close>; the assertion \<open>node && node->_m_prev\<close> is a precondition, and
  without a predecessor the model leaves the store alone.\<close>

definition ph_ncut ::
  "(addr \<Rightarrow> addr \<Rightarrow> bool) \<Rightarrow> ph_store \<Rightarrow> addr \<Rightarrow> ph_store option" where
  "ph_ncut pred s node =
     (if ph_prev (s node) = None then Some s
      else
        (case ph_build pred s (ph_down (s node)) of
           None \<Rightarrow> None
         | Some (s1, repl) \<Rightarrow>
             (case ph_prev (s1 node) of
                None \<Rightarrow> Some s1
              | Some p \<Rightarrow>
                  (case ph_cons s1 repl (ph_next (s1 node)) of (s2, c) \<Rightarrow>
                     let s3 = (if Some node = ph_next (s1 p)
                               then fst (ph_cons s2 (Some p) c)
                               else fst (ph_dunk s2 (Some p) c))
                     in Some (s3(node := (s3 node)\<lparr>ph_prev := None, ph_next := None,
                                                   ph_down := None\<rparr>))))))"

definition ph_tcut :: "ph_store \<Rightarrow> addr \<Rightarrow> ph_store" where
  "ph_tcut s node =
     (case ph_prev (s node) of
        None \<Rightarrow> s
      | Some p \<Rightarrow>
          let s1 = (if Some node = ph_next (s p)
                    then fst (ph_cons s (Some p) (ph_next (s node)))
                    else fst (ph_dunk s (Some p) (ph_next (s node))))
          in s1(node := (s1 node)\<lparr>ph_prev := None, ph_next := None\<rparr>))"

text \<open>The operations on the heap whose sentinel lives at address \<open>h\<close>.  As for MD3, a
  nested call among the arguments of \<open>_merge\<close> is evaluated before the root slot is read.\<close>

definition ph_kpush :: "(addr \<Rightarrow> addr \<Rightarrow> bool) \<Rightarrow> ph_store \<Rightarrow> addr \<Rightarrow> addr \<Rightarrow> ph_store" where
  "ph_kpush pred s h node =
     (case ph_merge pred s (ph_down (s h)) (Some node) of (s1, m) \<Rightarrow> fst (ph_dunk s1 (Some h) m))"

definition ph_kpop ::
  "(addr \<Rightarrow> addr \<Rightarrow> bool) \<Rightarrow> ph_store \<Rightarrow> addr \<Rightarrow> (ph_store \<times> addr option) option" where
  "ph_kpop pred s h =
     (case ph_down (s h) of
        None \<Rightarrow> Some (s, None)
      | Some retv \<Rightarrow>
          (case ph_build pred s (ph_down (s retv)) of
             None \<Rightarrow> None
           | Some (s1, b) \<Rightarrow>
               let s2 = fst (ph_dunk s1 (Some h) b)
               in Some (s2(retv := (s2 retv)\<lparr>ph_down := None, ph_next := None\<rparr>), Some retv)))"

definition ph_kdecrease ::
  "(addr \<Rightarrow> addr \<Rightarrow> bool) \<Rightarrow> ph_store \<Rightarrow> addr \<Rightarrow> addr \<Rightarrow> ph_store" where
  "ph_kdecrease pred s h node =
     (if Some node \<noteq> ph_down (s h) then
        (let s1 = ph_tcut s node in
         case ph_merge pred s1 (ph_down (s1 h)) (Some node) of (s2, m) \<Rightarrow>
           fst (ph_dunk s2 (Some h) m))
      else s)"

definition ph_reinsert ::
  "(addr \<Rightarrow> addr \<Rightarrow> bool) \<Rightarrow> ph_store \<Rightarrow> addr \<Rightarrow> addr \<Rightarrow> ph_store option" where
  "ph_reinsert pred s h node =
     (case ph_ncut pred s node of
        None \<Rightarrow> None
      | Some s1 \<Rightarrow>
          (case ph_merge pred s1 (ph_down (s1 h)) (Some node) of (s2, m) \<Rightarrow>
             Some (fst (ph_dunk s2 (Some h) m))))"

definition ph_shred_pop ::
  "ph_store \<Rightarrow> addr option \<Rightarrow> ph_store \<times> addr option \<times> addr option" where
  "ph_shred_pop s pref =
     (case pref of
        None \<Rightarrow> (s, None, None)
      | Some retv \<Rightarrow>
          let d = ph_down (s retv); n = ph_next (s retv);
              p0 = ph_prev (s retv);
              s1 = (case d of None \<Rightarrow> s | Some x \<Rightarrow> s(x := (s x)\<lparr>ph_prev := p0\<rparr>));
              p1 = (case d of None \<Rightarrow> p0 | Some x \<Rightarrow> d);
              s2 = (case n of None \<Rightarrow> s1 | Some y \<Rightarrow> s1(y := (s1 y)\<lparr>ph_prev := p1\<rparr>));
              p2 = (case n of None \<Rightarrow> p1 | Some y \<Rightarrow> n)
          in (s2, p2, pref))"

subsection \<open>Iteration support\<close>

partial_function (option) ph_abseil_loop :: "ph_store \<Rightarrow> addr \<Rightarrow> addr option \<Rightarrow> addr option"
where
  "ph_abseil_loop s node next =
     (case next of
        None \<Rightarrow> Some node
      | Some n \<Rightarrow>
          ph_abseil_loop s n
            (if ph_next (s n) \<noteq> None then ph_next (s n) else ph_down (s n)))"

declare ph_abseil_loop.simps [code]

definition ph_abseil :: "ph_store \<Rightarrow> addr \<Rightarrow> addr option" where
  "ph_abseil s node = ph_abseil_loop s node (ph_down (s node))"

definition ph_iter_succ :: "ph_store \<Rightarrow> addr \<Rightarrow> addr option" where
  "ph_iter_succ s node =
     (case ph_prev (s node) of
        None \<Rightarrow> Some node
      | Some next \<Rightarrow> if Some node = ph_next (s next) then ph_abseil s next else Some next)"

partial_function (option) ph_iter_pred_loop ::
  "ph_store \<Rightarrow> addr \<Rightarrow> addr option \<Rightarrow> addr option option"
where
  "ph_iter_pred_loop s node prev =
     (case prev of
        None \<Rightarrow> Some None
      | Some p \<Rightarrow>
          if Some node = ph_next (s p) \<or> ph_next (s p) = None
          then ph_iter_pred_loop s p (ph_prev (s p))
          else Some prev)"

declare ph_iter_pred_loop.simps [code]

definition ph_iter_pred :: "ph_store \<Rightarrow> addr \<Rightarrow> (error + addr) option" where
  "ph_iter_pred s node =
     (case ph_down (s node) of
        Some l \<Rightarrow> Some (Inr l)
      | None \<Rightarrow>
          (case ph_next (s node) of
             Some r \<Rightarrow> Some (Inr r)
           | None \<Rightarrow>
               (case ph_iter_pred_loop s node (ph_prev (s node)) of
                  None \<Rightarrow> None
                | Some None \<Rightarrow> Some (Inl OutOfRange)
                | Some (Some p) \<Rightarrow>
                    (case ph_next (s p) of
                       None \<Rightarrow> Some (Inl OutOfRange)
                     | Some r \<Rightarrow> Some (Inr r)))))"

definition ph_iter_head :: "ph_store \<Rightarrow> addr \<Rightarrow> addr option" where
  "ph_iter_head s h = ph_abseil s h"

definition ph_iter_tail :: "ph_store \<Rightarrow> addr \<Rightarrow> error + addr" where
  "ph_iter_tail s h = (case ph_down (s h) of None \<Rightarrow> Inl OutOfRange | Some n \<Rightarrow> Inr n)"

definition ph_iter_same :: "ph_store \<Rightarrow> addr \<Rightarrow> addr \<Rightarrow> bool" where
  "ph_iter_same s p1 p2 \<longleftrightarrow> p1 = p2 \<or> (ph_prev (s p1) = None \<and> ph_prev (s p2) = None)"

subsection \<open>The typed facade \<open>PairingHeap\<close>\<close>

record 'a ph_world =
  ph_nodes :: ph_store
  ph_vals :: "addr \<Rightarrow> 'a"
  ph_brk :: addr
  ph_dead :: "addr list"

definition ph_pred :: "('a \<Rightarrow> 'a \<Rightarrow> bool) \<Rightarrow> 'a ph_world \<Rightarrow> addr \<Rightarrow> addr \<Rightarrow> bool" where
  "ph_pred lt w n1 n2 = lt (ph_vals w n1) (ph_vals w n2)"

definition ph_fresh_node :: ph_node where
  "ph_fresh_node = \<lparr>ph_prev = None, ph_next = None, ph_down = None\<rparr>"

definition ph_create_node :: "'a ph_world \<Rightarrow> 'a \<Rightarrow> 'a ph_world \<times> addr" where
  "ph_create_node w v =
     (w\<lparr>ph_nodes := (ph_nodes w)(ph_brk w := ph_fresh_node),
        ph_vals := (ph_vals w)(ph_brk w := v),
        ph_brk := ph_brk w + 1\<rparr>, ph_brk w)"

definition ph_destroy_node :: "'a ph_world \<Rightarrow> addr option \<Rightarrow> 'a ph_world" where
  "ph_destroy_node w n = (case n of None \<Rightarrow> w | Some a \<Rightarrow> w\<lparr>ph_dead := a # ph_dead w\<rparr>)"

definition ph_new :: "'a ph_world \<Rightarrow> 'a ph_world \<times> addr" where
  "ph_new w =
     (w\<lparr>ph_nodes := (ph_nodes w)(ph_brk w := ph_fresh_node), ph_brk := ph_brk w + 1\<rparr>, ph_brk w)"

definition ph_empty_world :: "'a \<Rightarrow> 'a ph_world" where
  "ph_empty_world d =
     \<lparr>ph_nodes = (\<lambda>_. ph_fresh_node), ph_vals = (\<lambda>_. d), ph_brk = 0, ph_dead = []\<rparr>"

definition ph_push :: "('a \<Rightarrow> 'a \<Rightarrow> bool) \<Rightarrow> 'a ph_world \<Rightarrow> addr \<Rightarrow> 'a \<Rightarrow> 'a ph_world \<times> addr" where
  "ph_push lt w h v =
     (case ph_create_node w v of (w1, n) \<Rightarrow>
        (w1\<lparr>ph_nodes := ph_kpush (ph_pred lt w1) (ph_nodes w1) h n\<rparr>, n))"

definition ph_front :: "'a ph_world \<Rightarrow> addr \<Rightarrow> error + 'a" where
  "ph_front w h =
     (case ph_down (ph_nodes w h) of
        None \<Rightarrow> Inl EmptyAccess
      | Some n \<Rightarrow> Inr (ph_vals w n))"

definition ph_pop :: "('a \<Rightarrow> 'a \<Rightarrow> bool) \<Rightarrow> 'a ph_world \<Rightarrow> addr \<Rightarrow> 'a ph_world option" where
  "ph_pop lt w h =
     (case ph_kpop (ph_pred lt w) (ph_nodes w) h of
        None \<Rightarrow> None
      | Some (s, n) \<Rightarrow> Some (ph_destroy_node (w\<lparr>ph_nodes := s\<rparr>) n))"

definition ph_empty :: "'a ph_world \<Rightarrow> addr \<Rightarrow> bool" where
  "ph_empty w h \<longleftrightarrow> ph_down (ph_nodes w h) = None"

definition ph_merge_heaps ::
  "('a \<Rightarrow> 'a \<Rightarrow> bool) \<Rightarrow> 'a ph_world \<Rightarrow> addr \<Rightarrow> addr \<Rightarrow> 'a ph_world" where
  "ph_merge_heaps lt w h rhs =
     (if h \<noteq> rhs then
        (case ph_yield (ph_nodes w) rhs of (s1, t2) \<Rightarrow>
           (case ph_yield s1 h of (s2, t1) \<Rightarrow>
              (case ph_merge (ph_pred lt w) s2 t1 t2 of (s3, m) \<Rightarrow>
                 w\<lparr>ph_nodes := fst (ph_dunk s3 (Some h) m)\<rparr>)))
      else w)"

definition ph_begin :: "'a ph_world \<Rightarrow> addr \<Rightarrow> addr option" where
  "ph_begin w h = ph_iter_head (ph_nodes w) h"

definition ph_end :: "'a ph_world \<Rightarrow> addr \<Rightarrow> addr" where
  "ph_end w h = h"

definition ph_remove ::
  "('a \<Rightarrow> 'a \<Rightarrow> bool) \<Rightarrow> 'a ph_world \<Rightarrow> addr \<Rightarrow> ('a ph_world \<times> addr) option" where
  "ph_remove lt w itpos =
     (case ph_iter_succ (ph_nodes w) itpos of
        None \<Rightarrow> None
      | Some succ \<Rightarrow>
          (case ph_ncut (ph_pred lt w) (ph_nodes w) itpos of
             None \<Rightarrow> None
           | Some s \<Rightarrow> Some (ph_destroy_node (w\<lparr>ph_nodes := s\<rparr>) (Some itpos), succ)))"

definition ph_decrease ::
  "('a \<Rightarrow> 'a \<Rightarrow> bool) \<Rightarrow> 'a ph_world \<Rightarrow> addr \<Rightarrow> addr \<Rightarrow> 'a ph_world" where
  "ph_decrease lt w h itpos = w\<lparr>ph_nodes := ph_kdecrease (ph_pred lt w) (ph_nodes w) h itpos\<rparr>"

definition ph_readjust ::
  "('a \<Rightarrow> 'a \<Rightarrow> bool) \<Rightarrow> 'a ph_world \<Rightarrow> addr \<Rightarrow> addr \<Rightarrow> 'a ph_world option" where
  "ph_readjust lt w h itpos =
     map_option (\<lambda>s. w\<lparr>ph_nodes := s\<rparr>) (ph_reinsert (ph_pred lt w) (ph_nodes w) h itpos)"

definition ph_set_key :: "'a ph_world \<Rightarrow> addr \<Rightarrow> 'a \<Rightarrow> 'a ph_world" where
  "ph_set_key w n v = w\<lparr>ph_vals := (ph_vals w)(n := v)\<rparr>"


section \<open>LH2: the leftist heap with child links only (lhqueue2.hpp, lhqueue2.cpp)\<close>

text \<open>A node owns its two children and nothing else points to it, so a heap is a value
  of a recursive datatype; \<open>LNull\<close> is the null pointer.\<close>

datatype 'a lh_node =
  LNull
| LNode (lh_lptr: "'a lh_node") (lh_rptr: "'a lh_node") (lh_dist: int) (lh_value: 'a)

definition lh_dist_of :: "'a lh_node \<Rightarrow> int" where
  "lh_dist_of n = (case n of LNull \<Rightarrow> 0 | LNode l r d v \<Rightarrow> d)"

definition lh_singleton :: "'a lh_node \<Rightarrow> 'a lh_node" where
  "lh_singleton node = (case node of LNull \<Rightarrow> LNull | LNode l r d v \<Rightarrow> LNode LNull LNull 1 v)"

text \<open>The tail of \<open>_merge\<close>: swap the children if needed, then set the distance.\<close>

definition lh_adjust :: "'a lh_node \<Rightarrow> 'a lh_node \<Rightarrow> 'a \<Rightarrow> 'a lh_node" where
  "lh_adjust l r v =
     (if l = LNull \<or> lh_dist_of r > lh_dist_of l
      then LNode r l (lh_dist_of l + 1) v
      else LNode l r (lh_dist_of r + 1) v)"

function lh_merge :: "('a \<Rightarrow> 'a \<Rightarrow> bool) \<Rightarrow> 'a lh_node \<Rightarrow> 'a lh_node \<Rightarrow> 'a lh_node" where
  "lh_merge lt LNull h2 = h2"
| "lh_merge lt (LNode l1 r1 d1 v1) LNull = LNode l1 r1 d1 v1"
| "lh_merge lt (LNode l1 r1 d1 v1) (LNode l2 r2 d2 v2) =
     (if lt v2 v1
      then lh_adjust l2 (lh_merge lt r2 (LNode l1 r1 d1 v1)) v2
      else lh_adjust l1 (lh_merge lt r1 (LNode l2 r2 d2 v2)) v1)"
  by pat_completeness auto
termination
  by (relation "measure (\<lambda>(lt, h1, h2). size h1 + size h2)") auto

definition lh_create_node :: "'a \<Rightarrow> 'a lh_node" where
  "lh_create_node v = LNode LNull LNull 1 v"

definition lh_kpush :: "('a \<Rightarrow> 'a \<Rightarrow> bool) \<Rightarrow> 'a lh_node \<Rightarrow> 'a lh_node \<Rightarrow> 'a lh_node" where
  "lh_kpush lt root node = lh_merge lt root (lh_singleton node)"

text \<open>\<open>limit\<close> of \<open>_push_list\<close> is the width of a pointer in bits, 64 on the usual
  platforms.  The hedge is the used prefix \<open>hedge[0..hsize-1]\<close> of the array.\<close>

definition lh_limit :: nat where
  "lh_limit = 64"

function lh_hedge_carry ::
  "('a \<Rightarrow> 'a \<Rightarrow> bool) \<Rightarrow> 'a lh_node list \<Rightarrow> nat \<Rightarrow> 'a lh_node \<Rightarrow> 'a lh_node list \<times> nat \<times> 'a lh_node"
where
  "lh_hedge_carry lt hedge hidx node =
     (if hidx < length hedge \<and> hedge ! hidx \<noteq> LNull
      then lh_hedge_carry lt (hedge[hidx := LNull]) (hidx + 1) (lh_merge lt (hedge ! hidx) node)
      else (hedge, hidx, node))"
  by pat_completeness auto
termination
  by (relation "measure (\<lambda>(lt, hedge, hidx, node). length hedge - hidx)") auto

declare lh_hedge_carry.simps [simp del]

definition lh_hedge_put :: "'a lh_node list \<Rightarrow> nat \<Rightarrow> 'a lh_node \<Rightarrow> 'a lh_node list" where
  "lh_hedge_put hedge hidx node =
     (if hidx < length hedge then hedge[hidx := node]
      else if length hedge < lh_limit then hedge @ [node]
      else hedge[lh_limit - 1 := node])"

text \<open>Phase I of \<open>_push_list\<close>, over the list chained through \<open>_m_rptr\<close>.\<close>

fun lh_hedge_build ::
  "('a \<Rightarrow> 'a \<Rightarrow> bool) \<Rightarrow> 'a lh_node list \<Rightarrow> 'a lh_node \<Rightarrow> 'a lh_node list" where
  "lh_hedge_build lt hedge LNull = hedge"
| "lh_hedge_build lt hedge (LNode l r d v) =
     (case lh_hedge_carry lt hedge 0 (lh_singleton (LNode l r d v)) of
        (hedge1, hidx, node) \<Rightarrow> lh_hedge_build lt (lh_hedge_put hedge1 hidx node) r)"

text \<open>Phase II of \<open>_push_list\<close>.\<close>

fun lh_hedge_fold :: "('a \<Rightarrow> 'a \<Rightarrow> bool) \<Rightarrow> 'a lh_node list \<Rightarrow> 'a lh_node \<Rightarrow> 'a lh_node" where
  "lh_hedge_fold lt [] node = node"
| "lh_hedge_fold lt (x # hedge) node =
     lh_hedge_fold lt hedge (if x \<noteq> LNull then lh_merge lt x node else node)"

definition lh_push_list :: "('a \<Rightarrow> 'a \<Rightarrow> bool) \<Rightarrow> 'a lh_node \<Rightarrow> 'a lh_node \<Rightarrow> 'a lh_node" where
  "lh_push_list lt root head =
     lh_merge lt root (lh_hedge_fold lt (lh_hedge_build lt [] head) LNull)"

text \<open>\<open>_pop\<close> returns the new root and the old root as a singleton.\<close>

definition lh_kpop :: "('a \<Rightarrow> 'a \<Rightarrow> bool) \<Rightarrow> 'a lh_node \<Rightarrow> 'a lh_node \<times> 'a lh_node" where
  "lh_kpop lt root =
     (case root of
        LNull \<Rightarrow> (root, lh_singleton LNull)
      | LNode l r d v \<Rightarrow> (lh_merge lt l r, lh_singleton root))"

subsection \<open>The typed facade \<open>LeftistHeapEasy\<close>\<close>

text \<open>The world maps every heap object to its \<open>_m_root\<close> and records the payloads of
  the nodes destroyed so far.\<close>

record 'a lh_world =
  lh_roots :: "nat \<Rightarrow> 'a lh_node"
  lh_dead :: "'a list"

definition lh_empty_world :: "'a lh_world" where
  "lh_empty_world = \<lparr>lh_roots = (\<lambda>_. LNull), lh_dead = []\<rparr>"

definition lh_push :: "('a \<Rightarrow> 'a \<Rightarrow> bool) \<Rightarrow> 'a lh_world \<Rightarrow> nat \<Rightarrow> 'a \<Rightarrow> 'a lh_world" where
  "lh_push lt w h v = w\<lparr>lh_roots := (lh_roots w)(h := lh_kpush lt (lh_roots w h) (lh_create_node v))\<rparr>"

text \<open>\<open>push(first, last)\<close>: \<open>_cons\<close> chains the new nodes through \<open>_m_rptr\<close>, the last
  value first.\<close>

definition lh_cons :: "'a lh_node \<Rightarrow> 'a lh_node \<Rightarrow> 'a lh_node" where
  "lh_cons node tail = (case node of LNull \<Rightarrow> tail | LNode l r d v \<Rightarrow> LNode l tail d v)"

fun lh_chain :: "'a lh_node \<Rightarrow> 'a list \<Rightarrow> 'a lh_node" where
  "lh_chain head [] = head"
| "lh_chain head (v # vs) = lh_chain (lh_cons (lh_create_node v) head) vs"

definition lh_push_range :: "('a \<Rightarrow> 'a \<Rightarrow> bool) \<Rightarrow> 'a lh_world \<Rightarrow> nat \<Rightarrow> 'a list \<Rightarrow> 'a lh_world" where
  "lh_push_range lt w h vs =
     w\<lparr>lh_roots := (lh_roots w)(h := lh_push_list lt (lh_roots w h) (lh_chain LNull vs))\<rparr>"

definition lh_front :: "'a lh_world \<Rightarrow> nat \<Rightarrow> error + 'a" where
  "lh_front w h = (case lh_roots w h of LNull \<Rightarrow> Inl EmptyAccess | LNode l r d v \<Rightarrow> Inr v)"

definition lh_pop :: "('a \<Rightarrow> 'a \<Rightarrow> bool) \<Rightarrow> 'a lh_world \<Rightarrow> nat \<Rightarrow> 'a lh_world" where
  "lh_pop lt w h =
     (case lh_kpop lt (lh_roots w h) of (root, ptr) \<Rightarrow>
        (case ptr of
           LNull \<Rightarrow> w\<lparr>lh_roots := (lh_roots w)(h := root)\<rparr>
         | LNode l r d v \<Rightarrow> w\<lparr>lh_roots := (lh_roots w)(h := root), lh_dead := v # lh_dead w\<rparr>))"

definition lh_empty :: "'a lh_world \<Rightarrow> nat \<Rightarrow> bool" where
  "lh_empty w h \<longleftrightarrow> lh_roots w h = LNull"

definition lh_merge_heaps :: "('a \<Rightarrow> 'a \<Rightarrow> bool) \<Rightarrow> 'a lh_world \<Rightarrow> nat \<Rightarrow> nat \<Rightarrow> 'a lh_world" where
  "lh_merge_heaps lt w h rhs =
     (let hold = lh_roots w rhs;
          r1 = (lh_roots w)(rhs := LNull)
      in w\<lparr>lh_roots := r1(h := lh_merge lt (r1 h) hold)\<rparr>)"

section \<open>PH2: the pairing heap with forward links only (phqueue2.hpp, phqueue2.cpp)\<close>

datatype 'a p2_node =
  PNull
| PNode (p2_next: "'a p2_node") (p2_down: "'a p2_node") (p2_value: 'a)

definition p2_cons :: "'a p2_node \<Rightarrow> 'a p2_node \<Rightarrow> 'a p2_node" where
  "p2_cons a b = (case a of PNull \<Rightarrow> b | PNode n d v \<Rightarrow> PNode b d v)"

definition p2_dunk :: "'a p2_node \<Rightarrow> 'a p2_node \<Rightarrow> 'a p2_node" where
  "p2_dunk a b = (case a of PNull \<Rightarrow> b | PNode n d v \<Rightarrow> PNode n b v)"

definition p2_merge :: "('a \<Rightarrow> 'a \<Rightarrow> bool) \<Rightarrow> 'a p2_node \<Rightarrow> 'a p2_node \<Rightarrow> 'a p2_node" where
  "p2_merge lt h1 h2 =
     (let retv =
        (case h1 of
           PNull \<Rightarrow> h2
         | PNode n1 d1 v1 \<Rightarrow>
             (case h2 of
                PNull \<Rightarrow> h1
              | PNode n2 d2 v2 \<Rightarrow>
                  if \<not> lt v2 v1 then p2_dunk h1 (p2_cons h2 d1)
                  else p2_dunk h2 (p2_cons h1 d2)))
      in case retv of PNull \<Rightarrow> PNull | PNode n d v \<Rightarrow> PNode PNull d v)"

text \<open>The first loop of \<open>_build\<close> returns the rest \<open>h\<close> of the list and the stack \<open>q\<close>.\<close>

fun p2_build_pairs ::
  "('a \<Rightarrow> 'a \<Rightarrow> bool) \<Rightarrow> 'a p2_node \<Rightarrow> 'a p2_node \<Rightarrow> 'a p2_node \<times> 'a p2_node" where
  "p2_build_pairs lt (PNode (PNode n2 d2 v2) d1 v1) q =
     p2_build_pairs lt n2
       (p2_cons (p2_merge lt (PNode (PNode n2 d2 v2) d1 v1) (PNode n2 d2 v2)) q)"
| "p2_build_pairs lt h q = (h, q)"

fun p2_build_fold :: "('a \<Rightarrow> 'a \<Rightarrow> bool) \<Rightarrow> 'a p2_node \<Rightarrow> 'a p2_node \<Rightarrow> 'a p2_node" where
  "p2_build_fold lt PNull h = h"
| "p2_build_fold lt (PNode n d v) h = p2_build_fold lt n (p2_merge lt (PNode n d v) h)"

definition p2_build :: "('a \<Rightarrow> 'a \<Rightarrow> bool) \<Rightarrow> 'a p2_node \<Rightarrow> 'a p2_node" where
  "p2_build lt h0 = (case p2_build_pairs lt h0 PNull of (h, q) \<Rightarrow> p2_build_fold lt q h)"

definition p2_create_node :: "'a \<Rightarrow> 'a p2_node" where
  "p2_create_node v = PNode PNull PNull v"

definition p2_kpush :: "('a \<Rightarrow> 'a \<Rightarrow> bool) \<Rightarrow> 'a p2_node \<Rightarrow> 'a p2_node \<Rightarrow> 'a p2_node" where
  "p2_kpush lt root node = p2_merge lt root node"

definition p2_kpop :: "('a \<Rightarrow> 'a \<Rightarrow> bool) \<Rightarrow> 'a p2_node \<Rightarrow> 'a p2_node \<times> 'a p2_node" where
  "p2_kpop lt root =
     (case root of
        PNull \<Rightarrow> (root, PNull)
      | PNode n d v \<Rightarrow> (p2_build lt d, PNode PNull PNull v))"

subsection \<open>The typed facade \<open>PairingHeapEasy\<close>\<close>

record 'a p2_world =
  p2_roots :: "nat \<Rightarrow> 'a p2_node"
  p2_dead :: "'a list"

definition p2_empty_world :: "'a p2_world" where
  "p2_empty_world = \<lparr>p2_roots = (\<lambda>_. PNull), p2_dead = []\<rparr>"

definition p2_push :: "('a \<Rightarrow> 'a \<Rightarrow> bool) \<Rightarrow> 'a p2_world \<Rightarrow> nat \<Rightarrow> 'a \<Rightarrow> 'a p2_world" where
  "p2_push lt w h v = w\<lparr>p2_roots := (p2_roots w)(h := p2_kpush lt (p2_roots w h) (p2_create_node v))\<rparr>"

definition p2_front :: "'a p2_world \<Rightarrow> nat \<Rightarrow> error + 'a" where
  "p2_front w h = (case p2_roots w h of PNull \<Rightarrow> Inl EmptyAccess | PNode n d v \<Rightarrow> Inr v)"

definition p2_pop :: "('a \<Rightarrow> 'a \<Rightarrow> bool) \<Rightarrow> 'a p2_world \<Rightarrow> nat \<Rightarrow> 'a p2_world" where
  "p2_pop lt w h =
     (case p2_kpop lt (p2_roots w h) of (root, ptr) \<Rightarrow>
        (case ptr of
           PNull \<Rightarrow> w\<lparr>p2_roots := (p2_roots w)(h := root)\<rparr>
         | PNode n d v \<Rightarrow> w\<lparr>p2_roots := (p2_roots w)(h := root), p2_dead := v # p2_dead w\<rparr>))"

definition p2_empty :: "'a p2_world \<Rightarrow> nat \<Rightarrow> bool" where
  "p2_empty w h \<longleftrightarrow> p2_roots w h = PNull"

definition p2_merge_heaps :: "('a \<Rightarrow> 'a \<Rightarrow> bool) \<Rightarrow> 'a p2_world \<Rightarrow> nat \<Rightarrow> nat \<Rightarrow> 'a p2_world" where
  "p2_merge_heaps lt w h rhs =
     (let hold = p2_roots w rhs;
          r1 = (p2_roots w)(rhs := PNull)
      in w\<lparr>p2_roots := r1(h := p2_merge lt (r1 h) hold)\<rparr>)"


section \<open>The pointer-identity set (PointerMap.hpp, PointerMap.cpp)\<close>

text \<open>A pointer is its 64-bit value, the null pointer being 0.  An entry of \<open>_mapInfo\<close> is
  \<open>(tcap, tlen, bias)\<close>; the sentinel entry \<open>{0, 0, 0}\<close> is the last one.\<close>

unbundle bit_operations_syntax

type_synonym pm_info = "nat \<times> nat \<times> nat"

definition pm_mapInfo :: "pm_info list" where
  "pm_mapInfo =
     [(132, 199, 46), (211, 317, 232), (347, 521, 117), (559, 839, 446),
      (911, 1367, 932), (1471, 2207, 1841), (2380, 3571, 611), (3852, 5779, 2938),
      (6232, 9349, 8649), (10087, 15131, 2684), (16315, 24473, 4742),
      (26400, 39601, 1240), (42719, 64079, 8242), (69120, 103681, 85552),
      (111839, 167759, 1378), (180960, 271441, 227794), (292804, 439207, 401250),
      (473760, 710641, 563733), (766568, 1149853, 266341), (1240327, 1860491, 954068),
      (2006899, 3010349, 2209622), (3247231, 4870847, 3751089),
      (5254131, 7881197, 7596128), (8501360, 12752041, 10281520),
      (13755491, 20633237, 3254000), (22256852, 33385279, 21651584),
      (36012347, 54018521, 27504137), (58269200, 87403801, 12181047),
      (94281552, 141422329, 52297426), (152550748, 228826123, 176097082),
      (246832300, 370248451, 222234335), (0, 0, 0)]"

definition pm_mapSize :: nat where
  "pm_mapSize = length pm_mapInfo - 1"

definition pm_tcap :: "pm_info \<Rightarrow> nat" where "pm_tcap i = fst i"
definition pm_tlen :: "pm_info \<Rightarrow> nat" where "pm_tlen i = fst (snd i)"
definition pm_bias :: "pm_info \<Rightarrow> nat" where "pm_bias i = snd (snd i)"

record pmap =
  pm_table :: "64 word list"
  pm_tinfo :: nat
  pm_used :: nat

text \<open>The constructor: \<open>std::lower_bound\<close> finds the first entry whose capacity is not
  below \<open>n\<close>.\<close>

definition pm_lower_bound :: "nat \<Rightarrow> nat" where
  "pm_lower_bound n = length (takeWhile (\<lambda>i. pm_tcap i < n mod 2 ^ 32) (take pm_mapSize pm_mapInfo))"

definition pm_init :: "nat \<Rightarrow> error + pmap" where
  "pm_init n =
     (let t = pm_lower_bound n in
      if t = pm_mapSize then Inl RangeError
      else Inr \<lparr>pm_table = replicate (pm_tlen (pm_mapInfo ! t)) 0, pm_tinfo = t, pm_used = 0\<rparr>)"

definition pm_hash_ptr :: "64 word \<Rightarrow> 32 word" where
  "pm_hash_ptr ptr =
     (let key = ptr;
          key = key + push_bit 12 key;
          key = key XOR drop_bit 22 key;
          key = key + push_bit 4 key;
          key = key XOR drop_bit 9 key;
          key = key + push_bit 10 key;
          key = key XOR drop_bit 2 key;
          key = key + push_bit 7 key;
          key = key XOR drop_bit 12 key;
          key = key XOR drop_bit 32 key
      in ucast key)"

definition pm_stepinfo :: "pmap \<Rightarrow> 64 word \<Rightarrow> error + nat \<times> nat" where
  "pm_stepinfo pm p =
     (let phash = pm_hash_ptr p;
          step = unat ((phash AND 127) + 1);
          info = pm_mapInfo ! pm_tinfo pm;
          hash = ((unat phash * pm_tlen info + pm_bias info) mod 2 ^ 64 div 2 ^ 32) mod 2 ^ 32
      in if hash \<ge> length (pm_table pm) then Inl LogicError else Inr (hash, step))"

text \<open>The probing loop of \<open>insert\<close> and \<open>lookup\<close>.  Reading the table outside its bounds
  is undefined; the model then stops with the index it has.\<close>

partial_function (option) pm_probe :: "64 word list \<Rightarrow> 64 word \<Rightarrow> nat \<Rightarrow> nat \<Rightarrow> nat option"
where
  "pm_probe table p hash step =
     (if hash < length table \<and> table ! hash \<noteq> 0 \<and> p \<noteq> table ! hash
      then pm_probe table p
             (if hash + step \<ge> length table then hash + step - length table else hash + step) step
      else Some hash)"

declare pm_probe.simps [code]

definition pm_lookup :: "pmap \<Rightarrow> 64 word \<Rightarrow> (error + bool) option" where
  "pm_lookup pm p =
     (case pm_stepinfo pm p of
        Inl e \<Rightarrow> Some (Inl e)
      | Inr (hash, step) \<Rightarrow>
          (case pm_probe (pm_table pm) p hash step of
             None \<Rightarrow> None
           | Some i \<Rightarrow> Some (Inr (pm_table pm ! i \<noteq> 0))))"

text \<open>\<open>insert\<close> and \<open>_rehash\<close> call each other; a rehash moves to the next entry of
  \<open>_mapInfo\<close>, so the recursion is over the number of entries left.\<close>

fun pm_reinsert_all ::
  "(pmap \<Rightarrow> 64 word \<Rightarrow> (error + bool \<times> pmap) option) \<Rightarrow> pmap \<Rightarrow> 64 word list \<Rightarrow>
   (error + pmap) option" where
  "pm_reinsert_all ins pm [] = Some (Inr pm)"
| "pm_reinsert_all ins pm (p # ps) =
     (if p = 0 then pm_reinsert_all ins pm ps
      else (case ins pm p of
              None \<Rightarrow> None
            | Some (Inl e) \<Rightarrow> Some (Inl e)
            | Some (Inr (_, pm1)) \<Rightarrow> pm_reinsert_all ins pm1 ps))"

definition pm_rehash ::
  "(pmap \<Rightarrow> 64 word \<Rightarrow> (error + bool \<times> pmap) option) \<Rightarrow> pmap \<Rightarrow> (error + pmap) option" where
  "pm_rehash ins pm =
     (let t = pm_tinfo pm + 1 in
      if pm_tlen (pm_mapInfo ! t) = 0 then Some (Inl OverflowError)
      else pm_reinsert_all ins
             \<lparr>pm_table = replicate (pm_tlen (pm_mapInfo ! t)) 0, pm_tinfo = t, pm_used = 0\<rparr>
             (pm_table pm))"

fun pm_insert_at :: "nat \<Rightarrow> pmap \<Rightarrow> 64 word \<Rightarrow> (error + bool \<times> pmap) option" where
  "pm_insert_at n pm p =
     (case pm_stepinfo pm p of
        Inl e \<Rightarrow> Some (Inl e)
      | Inr (hash, step) \<Rightarrow>
          (case pm_probe (pm_table pm) p hash step of
             None \<Rightarrow> None
           | Some i \<Rightarrow>
               if pm_table pm ! i = 0 then
                 (let pm1 = pm\<lparr>pm_table := (pm_table pm)[i := p], pm_used := pm_used pm + 1\<rparr> in
                  if pm_used pm1 > pm_tcap (pm_mapInfo ! pm_tinfo pm1) then
                    (case n of
                       0 \<Rightarrow> None
                     | Suc m \<Rightarrow>
                         (case pm_rehash (pm_insert_at m) pm1 of
                            None \<Rightarrow> None
                          | Some (Inl e) \<Rightarrow> Some (Inl e)
                          | Some (Inr pm2) \<Rightarrow> Some (Inr (True, pm2))))
                  else Some (Inr (True, pm1)))
               else Some (Inr (False, pm))))"

definition pm_insert :: "pmap \<Rightarrow> 64 word \<Rightarrow> (error + bool \<times> pmap) option" where
  "pm_insert pm p = pm_insert_at (length pm_mapInfo - pm_tinfo pm) pm p"


text \<open>The primes up to 128, and for every table length \<open>tlen\<close> of \<open>_mapInfo\<close> a pair
  \<open>(x, y)\<close> with \<open>tlen * x = P * y + 1\<close>, where \<open>P\<close> is the product of these primes.\<close>

definition pm_small_primes :: "nat list" where
  "pm_small_primes =
     [2, 3, 5, 7, 11, 13, 17, 19, 23, 29, 31, 37, 41, 43, 47, 53, 59, 61, 67, 71, 73, 79,
      83, 89, 97, 101, 103, 107, 109, 113, 127]"

definition pm_cert :: "(nat \<times> nat) list" where
  "pm_cert =
     [(3671531673158857218166775367953468416429905100939, 182),
      (1190412720180774138091096128417817800771965972513, 94),
      (832175641934679286798847695767395153085903275921, 108),
      (2397202558529023993726239619442251029153264015629, 501),
      (3670882351255519558425787489965293650919792655203, 1250),
      (1940845896813932765638318422909284168917607412473, 1067),
      (1274829697340706535545532433406758662827340764751, 1134),
      (1066312874524348598418405821163692556627692309269, 1535),
      (3270323710553043493009227101484903172606167723469, 7616),
      (1101056063593424108435789503400838498253943809271, 4150),
      (470950161109187549499045506574746683582328956247, 2871),
      (2338373767318884517407173433446978186586465872311, 23067),
      (1986533018138723209163620468170802684778232733349, 31709),
      (1583008219323616203112789556244450086000620870441, 40884),
      (1388946467925822677098811724401490899571411796379, 58042),
      (1943340430621611898154698713724243319746351220161, 131400),
      (2877772876944834164654569119589066615621503620893, 314845),
      (3788699648360064664274542640680165929034269684181, 670674),
      (1400620589011752626779216515519178240778528224267, 401175),
      (2113707314922442653258008485540389877358541072251, 979588),
      (3629561238590295430614995354439759753738057940619, 2721711),
      (1565503974612967776172183008626551735902014557403, 1899458),
      (1934147628549324048728108983687400425427006506163, 3797107),
      (2509545605793524917556521503405079670584274212741, 7971606),
      (2477403070933506220634965554906915915939142796003, 12733127),
      (2331358448319220684258131008872158070971583950229, 19388093),
      (556543097054840469957913078062100995870275468531, 7488805),
      (1111641527725366424309490111261192610633453544641, 24202828),
      (3463791774289705583272348516058525334379666081789, 122022746),
      (631674850731647970422351906726265502198142818327, 36005614),
      (1678532085905769799709903423709963371153731118521, 154808189)]"

section \<open>Example worlds\<close>

text \<open>A min-dist heap at sentinel 0 after \<open>push(1); push(2); push(3)\<close>: node 1 is the
  root, node 2 its left and node 3 its right child.\<close>

definition md_ex123 :: "nat md_world" where
  "md_ex123 =
     (case md_new (md_empty_world 0) of (w0, h) \<Rightarrow>
        the (Option.bind (md_push (<) w0 h 1) (\<lambda>(w1, _).
             Option.bind (md_push (<) w1 h 2) (\<lambda>(w2, _).
             Option.bind (md_push (<) w2 h 3) (\<lambda>(w3, _). Some w3)))))"

text \<open>A min-dist heap at sentinel 0 after \<open>push(3); push(2); push(1)\<close>: a chain of left
  children, node 3 (value 1) above node 2 (value 2) above node 1 (value 3).\<close>

definition md_ex321 :: "nat md_world" where
  "md_ex321 =
     (case md_new (md_empty_world 0) of (w0, h) \<Rightarrow>
        the (Option.bind (md_push (<) w0 h 3) (\<lambda>(w1, _).
             Option.bind (md_push (<) w1 h 2) (\<lambda>(w2, _).
             Option.bind (md_push (<) w2 h 1) (\<lambda>(w3, _). Some w3)))))"

section \<open>LH2 and PH2: contents, heap order and the clients' loops\<close>

text \<open>The values stored below a node, the heap order (no value below a node goes before
  the value of the node) and the leaf-distance invariants.\<close>

fun lh_vals :: "'a lh_node \<Rightarrow> 'a multiset" where
  "lh_vals LNull = {#}"
| "lh_vals (LNode l r d v) = {#v#} + lh_vals l + lh_vals r"

fun lh_ordered :: "('a \<Rightarrow> 'a \<Rightarrow> bool) \<Rightarrow> 'a lh_node \<Rightarrow> bool" where
  "lh_ordered lt LNull = True"
| "lh_ordered lt (LNode l r d v) =
     ((\<forall>x \<in># lh_vals l + lh_vals r. \<not> lt x v) \<and> lh_ordered lt l \<and> lh_ordered lt r)"

fun lh_dist_ok :: "'a lh_node \<Rightarrow> bool" where
  "lh_dist_ok LNull = True"
| "lh_dist_ok (LNode l r d v) =
     (d = min (lh_dist_of l) (lh_dist_of r) + 1 \<and> lh_dist_of r \<le> lh_dist_of l \<and>
      lh_dist_ok l \<and> lh_dist_ok r)"

text \<open>The worlds a client reaches with \<open>push\<close>, \<open>push(first, last)\<close> and \<open>merge\<close>.\<close>

inductive lh_reach :: "('a \<Rightarrow> 'a \<Rightarrow> bool) \<Rightarrow> 'a lh_world \<Rightarrow> bool" for lt where
  lh_reach_empty: "lh_reach lt lh_empty_world"
| lh_reach_push: "lh_reach lt w \<Longrightarrow> lh_reach lt (lh_push lt w h v)"
| lh_reach_push_range: "lh_reach lt w \<Longrightarrow> lh_reach lt (lh_push_range lt w h vs)"
| lh_reach_merge: "lh_reach lt w \<Longrightarrow> lh_reach lt (lh_merge_heaps lt w h rhs)"

text \<open>The client loop \<open>while (!q.empty()) { out.push_back(q.front()); q.pop(); }\<close>;
  \<open>acc\<close> holds the output in reverse.\<close>

partial_function (option) lh_drain ::
  "('a \<Rightarrow> 'a \<Rightarrow> bool) \<Rightarrow> 'a lh_world \<Rightarrow> nat \<Rightarrow> 'a list \<Rightarrow> (error + 'a list \<times> 'a lh_world) option"
where
  "lh_drain lt w h acc =
     (if lh_empty w h then Some (Inr (rev acc, w))
      else (case lh_front w h of
              Inl e \<Rightarrow> Some (Inl e)
            | Inr x \<Rightarrow> lh_drain lt (lh_pop lt w h) h (x # acc)))"

declare lh_drain.simps [code]

fun p2_vals :: "'a p2_node \<Rightarrow> 'a multiset" where
  "p2_vals PNull = {#}"
| "p2_vals (PNode n d v) = {#v#} + p2_vals n + p2_vals d"

fun p2_ordered :: "('a \<Rightarrow> 'a \<Rightarrow> bool) \<Rightarrow> 'a p2_node \<Rightarrow> bool" where
  "p2_ordered lt PNull = True"
| "p2_ordered lt (PNode n d v) =
     ((\<forall>x \<in># p2_vals d. \<not> lt x v) \<and> p2_ordered lt n \<and> p2_ordered lt d)"

text \<open>A root has no sibling.\<close>

definition p2_is_root :: "'a p2_node \<Rightarrow> bool" where
  "p2_is_root t \<longleftrightarrow> (case t of PNull \<Rightarrow> True | PNode n d v \<Rightarrow> n = PNull)"

inductive p2_reach :: "('a \<Rightarrow> 'a \<Rightarrow> bool) \<Rightarrow> 'a p2_world \<Rightarrow> bool" for lt where
  p2_reach_empty: "p2_reach lt p2_empty_world"
| p2_reach_push: "p2_reach lt w \<Longrightarrow> p2_reach lt (p2_push lt w h v)"
| p2_reach_merge: "p2_reach lt w \<Longrightarrow> p2_reach lt (p2_merge_heaps lt w h rhs)"

partial_function (option) p2_drain ::
  "('a \<Rightarrow> 'a \<Rightarrow> bool) \<Rightarrow> 'a p2_world \<Rightarrow> nat \<Rightarrow> 'a list \<Rightarrow> (error + 'a list \<times> 'a p2_world) option"
where
  "p2_drain lt w h acc =
     (if p2_empty w h then Some (Inr (rev acc, w))
      else (case p2_front w h of
              Inl e \<Rightarrow> Some (Inl e)
            | Inr x \<Rightarrow> p2_drain lt (p2_pop lt w h) h (x # acc)))"

declare p2_drain.simps [code]

text \<open>A list of fresh nodes chained through \<open>_m_rptr\<close>, as \<open>push(first, last)\<close>
  builds it.\<close>

fun lh_is_chain :: "'a lh_node \<Rightarrow> bool" where
  "lh_is_chain LNull = True"
| "lh_is_chain (LNode l r d v) = (l = LNull \<and> lh_is_chain r)"

section \<open>MD3: what the merge kernel leaves alone\<close>

lemma md_phase3_links:
  "md_merge_phase3 s root steps = Some s' \<Longrightarrow>
     md_lptr (s' a) = md_lptr (s a) \<and> md_rptr (s' a) = md_rptr (s a) \<and>
     md_pptr (s' a) = md_pptr (s a)"
proof (induction s root steps s' rule: md_merge_phase3.raw_induct[rotated 1, consumes 1])
  case (1 f s root steps s')
  then show ?case
    by (auto split: option.splits if_splits simp: Let_def)
qed

lemma md_merge_null_null:
  assumes "md_merge pred s root (LinkL p) None None = Some (s', hold)"
  shows "md_lptr (s' p) = None" and "md_rptr (s' a) = md_rptr (s a)"
    and "md_pptr (s' a) = md_pptr (s a)" and "a \<noteq> p \<Longrightarrow> md_lptr (s' a) = md_lptr (s a)"
proof -
  let ?s1 = "s(p := (s p)\<lparr>md_lptr := None\<rparr>)"
  from assms have ph3: "md_merge_phase3 ?s1 root 1 = Some s'"
    by (simp add: md_merge_def md_merge_phase1.simps md_link_set_def md_set_pptr_def
             split: option.splits)
  show "md_lptr (s' p) = None" using md_phase3_links[OF ph3, of p] by simp
  show "md_rptr (s' a) = md_rptr (s a)" using md_phase3_links[OF ph3, of a] by simp
  show "md_pptr (s' a) = md_pptr (s a)" using md_phase3_links[OF ph3, of a] by simp
  show "a \<noteq> p \<Longrightarrow> md_lptr (s' a) = md_lptr (s a)"
    using md_phase3_links[OF ph3, of a] by simp
qed

text \<open>C1.  \<open>_tcut\<close> on a node \<open>n\<close> that is the right child of its parent \<open>p\<close> does not
  detach it: afterwards the right slot of \<open>p\<close> still holds \<open>n\<close>, so \<open>n\<close> stays reachable
  through \<open>p\<close>, and it is the left slot of \<open>p\<close> that has been cleared.  The claim, that
  \<open>_tcut\<close> clears the slot that held \<open>n\<close> whichever child \<open>n\<close> is, fails for every
  right child.\<close>

theorem md_tcut_right_child:
  assumes "md_pptr (s n) = Some p" and "md_lptr (s p) \<noteq> Some n" and "md_rptr (s p) = Some n"
    and "n \<noteq> p" and "md_tcut pred s n = Some s'"
  shows "md_rptr (s' p) = Some n \<and> md_lptr (s' p) = None"
proof -
  from assms obtain s1 hold
    where m: "md_merge pred s (Some p) (LinkL p) None None = Some (s1, hold)"
      and s': "s' = s1(n := (s1 n)\<lparr>md_pptr := None\<rparr>)"
    by (auto simp: md_tcut_def split: option.splits)
  show ?thesis
    using md_merge_null_null(1)[OF m] md_merge_null_null(2)[OF m, of p] assms(3,4) s'
    by simp
qed

theorem md_tcut_right_child_witness:
  "md_pptr (md_nodes md_ex123 3) = Some 1 \<and> md_lptr (md_nodes md_ex123 1) = Some 2 \<and>
   md_rptr (md_nodes md_ex123 1) = Some 3 \<and>
   (\<exists>s'. md_tcut (md_pred (<) md_ex123) (md_nodes md_ex123) 3 = Some s' \<and>
         md_rptr (s' 1) = Some 3 \<and> md_lptr (s' 1) = None)"
proof -
  have h1: "md_pptr (md_nodes md_ex123 3) = Some 1" by code_simp
  have h2: "md_lptr (md_nodes md_ex123 1) = Some 2" by code_simp
  have h3: "md_rptr (md_nodes md_ex123 1) = Some 3" by code_simp
  have h2': "md_lptr (md_nodes md_ex123 1) \<noteq> Some 3" using h2 by simp
  have "md_tcut (md_pred (<) md_ex123) (md_nodes md_ex123) 3 \<noteq> None" by code_simp
  then obtain s' where t: "md_tcut (md_pred (<) md_ex123) (md_nodes md_ex123) 3 = Some s'"
    by blast
  have "(3::nat) \<noteq> 1" by simp
  from md_tcut_right_child[OF h1 h2' h3 this t] h1 h2 h3 t show ?thesis by blast
qed

text \<open>C2.  \<open>readjust\<close> of MD3 calls \<open>_reinsert\<close>, which cuts the whole subtree with
  \<open>_tcut\<close> instead of cutting the node with \<open>_ncut\<close>.  In the chain 1 - 2 - 3 the key of
  the middle node is raised from 2 to 9 and the node is readjusted: it keeps its child
  with key 3, so the heap order is broken below it.\<close>

theorem md_readjust_keeps_children:
  "(case md_readjust (<) (md_set_key md_ex321 2 9) 0 2 of
      None \<Rightarrow> False
    | Some w \<Rightarrow> md_lptr (md_nodes w 2) = Some 1 \<and> md_vals w 2 = 9 \<and> md_vals w 1 = 3 \<and>
               md_vals w 1 < md_vals w 2 \<and>
               md_lptr (md_nodes w 0) = Some 3 \<and> md_lptr (md_nodes w 3) = Some 2)"
  by code_simp

section \<open>Popping an empty heap\<close>

text \<open>C9.  In all four variants \<open>pop()\<close> on an empty heap returns without an error
  and leaves the world as it is: no link changes and no node is destroyed.\<close>

theorem pop_empty_noop:
  "(md_empty wm hm \<longrightarrow> md_pop ltm wm hm = Some wm) \<and>
   (ph_empty wp hp \<longrightarrow> ph_pop ltp wp hp = Some wp) \<and>
   (lh_empty wl hl \<longrightarrow> lh_pop ltl wl hl = wl) \<and>
   (p2_empty wq hq \<longrightarrow> p2_pop ltq wq hq = wq)"
proof (intro conjI impI)
  assume "md_empty wm hm"
  then show "md_pop ltm wm hm = Some wm"
    by (simp add: md_empty_def md_pop_def md_kpop_def md_destroy_node_def)
next
  assume "ph_empty wp hp"
  then show "ph_pop ltp wp hp = Some wp"
    by (simp add: ph_empty_def ph_pop_def ph_kpop_def ph_destroy_node_def)
next
  assume "lh_empty wl hl"
  then have "lh_roots wl hl = LNull" by (simp add: lh_empty_def)
  then have "(lh_roots wl)(hl := LNull) = lh_roots wl" by (metis fun_upd_triv)
  with \<open>lh_roots wl hl = LNull\<close> show "lh_pop ltl wl hl = wl"
    by (simp add: lh_pop_def lh_kpop_def lh_singleton_def)
next
  assume "p2_empty wq hq"
  then have "p2_roots wq hq = PNull" by (simp add: p2_empty_def)
  then have "(p2_roots wq)(hq := PNull) = p2_roots wq" by (metis fun_upd_triv)
  with \<open>p2_roots wq hq = PNull\<close> show "p2_pop ltq wq hq = wq"
    by (simp add: p2_pop_def p2_kpop_def)
qed

theorem pop_empty_noop_witness:
  "md_empty (fst (md_new (md_empty_world (0::nat)))) 0 \<and>
   md_pop (<) (fst (md_new (md_empty_world (0::nat)))) 0 = Some (fst (md_new (md_empty_world 0))) \<and>
   ph_empty (fst (ph_new (ph_empty_world (0::nat)))) 0 \<and>
   ph_pop (<) (fst (ph_new (ph_empty_world (0::nat)))) 0 = Some (fst (ph_new (ph_empty_world 0))) \<and>
   lh_empty (lh_empty_world :: nat lh_world) 0 \<and>
   lh_pop (<) (lh_empty_world :: nat lh_world) 0 = lh_empty_world \<and>
   p2_empty (p2_empty_world :: nat p2_world) 0 \<and>
   p2_pop (<) (p2_empty_world :: nat p2_world) 0 = p2_empty_world"
proof -
  have m: "md_empty (fst (md_new (md_empty_world (0::nat)))) 0"
    by (simp add: md_empty_def md_new_def md_empty_world_def md_fresh_node_def)
  have p: "ph_empty (fst (ph_new (ph_empty_world (0::nat)))) 0"
    by (simp add: ph_empty_def ph_new_def ph_empty_world_def ph_fresh_node_def)
  have l: "lh_empty (lh_empty_world :: nat lh_world) 0"
    by (simp add: lh_empty_def lh_empty_world_def)
  have q: "p2_empty (p2_empty_world :: nat p2_world) 0"
    by (simp add: p2_empty_def p2_empty_world_def)
  from pop_empty_noop[of "fst (md_new (md_empty_world (0::nat)))" 0 "(<)"
        "fst (ph_new (ph_empty_world (0::nat)))" 0 "(<)"
        "lh_empty_world :: nat lh_world" 0 "(<)" "p2_empty_world :: nat p2_world" 0 "(<)"]
       m p l q
  show ?thesis by blast
qed


section \<open>The pointer-identity set: table lengths and probing\<close>

lemma bezout_coprime: "a * x = b * y + 1 \<Longrightarrow> coprime (a::nat) b"
proof (rule coprimeI)
  fix c assume h: "a * x = b * y + 1" and ca: "c dvd a" and cb: "c dvd b"
  from ca have "c dvd a * x" by simp
  with h have "c dvd b * y + 1" by simp
  moreover from cb have "c dvd b * y" by simp
  ultimately show "is_unit c" using dvd_add_right_iff by blast
qed

lemma pm_small_factor: "\<forall>k\<in>{2..128::nat}. \<exists>q\<in>set pm_small_primes. k mod q = 0"
  by code_simp

lemma pm_small_primes_ge2: "\<forall>q\<in>set pm_small_primes. 2 \<le> q"
  by (simp add: pm_small_primes_def)

lemma pm_cert_ok:
  "list_all2 (\<lambda>i c. pm_tlen i * fst c = prod_list pm_small_primes * snd c + 1)
     (take pm_mapSize pm_mapInfo) pm_cert"
  by (simp add: pm_mapInfo_def pm_mapSize_def pm_tlen_def pm_cert_def pm_small_primes_def)

lemma pm_tlen_coprime_primes:
  assumes "i \<in> set (take pm_mapSize pm_mapInfo)"
  shows "coprime (pm_tlen i) (prod_list pm_small_primes)"
proof -
  from assms obtain n
    where n: "n < length (take pm_mapSize pm_mapInfo)" "i = take pm_mapSize pm_mapInfo ! n"
    by (auto simp: in_set_conv_nth)
  from pm_cert_ok n
  have "pm_tlen i * fst (pm_cert ! n) = prod_list pm_small_primes * snd (pm_cert ! n) + 1"
    unfolding list_all2_conv_all_nth by blast
  then show ?thesis by (rule bezout_coprime)
qed

lemma pm_coprime_small:
  assumes sf: "\<forall>k\<in>{2..128::nat}. \<exists>q\<in>set pm_small_primes. k mod q = 0"
   and ge2: "\<forall>q\<in>set pm_small_primes. 2 \<le> q"
   and cp: "coprime t (prod_list pm_small_primes)"
   and k: "1 \<le> k" "k \<le> 128"
  shows "coprime t k"
proof (rule coprimeI)
  fix c assume ct: "c dvd t" and ck: "c dvd k"
  show "is_unit c"
  proof (rule ccontr)
    assume "\<not> is_unit c"
    then have c1: "c \<noteq> 1" by simp
    from ck k have "c \<le> k" by (simp add: dvd_imp_le)
    moreover from ck k have "c \<noteq> 0" by (metis dvd_0_left not_one_le_zero)
    ultimately have "c \<in> {2..128}" using c1 k by simp
    with sf have "\<exists>q\<in>set pm_small_primes. c mod q = 0" by (rule bspec)
    then obtain q where q: "q \<in> set pm_small_primes" "c mod q = 0" by (rule bexE)
    then have "q dvd c" by (simp add: dvd_eq_mod_eq_0)
    from this ct have qt: "q dvd t" by (rule dvd_trans)
    from q(1) have "q dvd prod_list pm_small_primes"
      by (rule prod_list_dvd)
    from cp qt this have "is_unit q"
      by (rule coprime_common_divisor)
    then have "q = 1" by simp
    moreover from ge2 q(1) have "2 \<le> q" by blast
    ultimately show False by simp
  qed
qed

lemma pm_tlen_coprime:
  assumes i: "i \<in> set (take pm_mapSize pm_mapInfo)" and k: "1 \<le> k" "k \<le> 128"
  shows "coprime (pm_tlen i) k"
  using pm_coprime_small[OF pm_small_factor pm_small_primes_ge2 pm_tlen_coprime_primes[OF i] k] .

lemma pm_tlen_bounds:
  "list_all (\<lambda>i. 128 < pm_tlen i \<and> pm_bias i < pm_tlen i \<and> pm_tlen i < 2 ^ 32) (take pm_mapSize pm_mapInfo)"
  by (simp add: pm_mapInfo_def pm_mapSize_def pm_tlen_def pm_bias_def)

lemma pm_probe_finds:
  assumes "length table = n" and "step \<le> n" and "hash < n"
    and "table ! ((hash + k * step) mod n) = 0"
  shows "\<exists>j. pm_probe table p hash step = Some j \<and> j < n \<and> (table ! j = 0 \<or> table ! j = p)"
  using assms(3,4)
proof (induction k arbitrary: hash)
  case 0
  then show ?case using assms(1) by (subst pm_probe.simps) simp
next
  case (Suc k)
  show ?case
  proof (cases "table ! hash \<noteq> 0 \<and> p \<noteq> table ! hash")
    case False
    then show ?thesis using Suc.prems(1) assms(1) by (subst pm_probe.simps) auto
  next
    case True
    let ?h = "if hash + step \<ge> length table then hash + step - length table else hash + step"
    have hn: "?h < n" using Suc.prems(1) assms(1,2) by auto
    have "?h = (hash + step) mod n" using Suc.prems(1) assms(1,2)
      by (auto simp: le_mod_geq)
    then have "(?h + k * step) mod n = ((hash + step) mod n + k * step) mod n" by simp
    also have "\<dots> = (hash + step + k * step) mod n" by (rule mod_add_left_eq)
    finally have "(?h + k * step) mod n = (hash + Suc k * step) mod n"
      by (simp add: add.assoc)
    with Suc.prems(2) have "table ! ((?h + k * step) mod n) = 0" by simp
    from Suc.IH[OF hn this] obtain j where
      "pm_probe table p ?h step = Some j" "j < n" "table ! j = 0 \<or> table ! j = p" by blast
    then show ?thesis using True Suc.prems(1) assms(1) by (subst pm_probe.simps) auto
  qed
qed

lemma pm_coprime_reach:
  assumes "coprime step n" and "0 < step" and "hash < n" and "i < n"
  shows "\<exists>k. (hash + k * step) mod n = (i::nat)"
proof -
  from bezout_nat[of step n] assms(1,2) obtain x y where xy: "step * x = n * y + 1"
    by auto
  define d where "d = i + n - hash"
  have hd: "hash + d = i + n" using assms(3) by (simp add: d_def)
  have "hash + (x * d) * step = hash + (step * x) * d" by (simp add: ac_simps)
  also have "\<dots> = hash + (n * y + 1) * d" by (simp only: xy)
  also have "\<dots> = (hash + d) + n * (y * d)" by (simp add: algebra_simps)
  also have "\<dots> = i + n * (1 + y * d)" by (simp only: hd) (simp add: algebra_simps)
  finally have "(hash + (x * d) * step) mod n = (i + n * (1 + y * d)) mod n" by simp
  also have "\<dots> = i mod n" by (rule mod_mult_self2)
  also have "\<dots> = i" using assms(4) by simp
  finally show ?thesis by blast
qed

lemma pm_step_range:
  "1 \<le> unat (((w :: 32 word) AND 127) + 1) \<and> unat ((w AND 127) + 1) \<le> 128"
proof -
  have a: "unat (w AND 127) \<le> 127"
    by (metis (no_types, lifting) le_unat_uoi linorder_linear of_nat_numeral
        word_and_le1 word_le_nat_alt)
  then have "unat (w AND 127) + unat (1 :: 32 word) < 2 ^ LENGTH(32)" by simp
  then have "unat ((w AND 127) + 1) = unat (w AND 127) + unat (1 :: 32 word)"
    by (simp only: unat_add_lem)
  with a show ?thesis by simp
qed

lemma pm_stepinfo_range:
  assumes "pm_stepinfo pm p = Inr (hash, step)"
  shows "1 \<le> step \<and> step \<le> 128 \<and> hash < length (pm_table pm)"
  using assms pm_step_range[of "pm_hash_ptr p"]
  by (auto simp: pm_stepinfo_def Let_def split: if_splits)

lemma pm_stepinfo_ok:
  assumes "info \<in> set (take pm_mapSize pm_mapInfo)" and "pm_mapInfo ! pm_tinfo pm = info"
    and "length (pm_table pm) = pm_tlen info"
  shows "\<exists>hash step. pm_stepinfo pm p = Inr (hash, step)"
proof -
  from pm_tlen_bounds assms(1) have b: "pm_bias info < pm_tlen info" "pm_tlen info < 2 ^ 32"
    by (auto simp: list_all_iff)
  let ?h = "unat (pm_hash_ptr p)"
  have "?h < 2 ^ 32" using unsigned_less[of "pm_hash_ptr p"] by simp
  then have "?h + 1 \<le> 2 ^ 32" by simp
  then have le: "(?h + 1) * pm_tlen info \<le> 2 ^ 32 * pm_tlen info" by (rule mult_le_mono1)
  have "?h * pm_tlen info + pm_bias info < ?h * pm_tlen info + pm_tlen info"
    using b(1) by simp
  also have "\<dots> = (?h + 1) * pm_tlen info" by simp
  finally have lt: "?h * pm_tlen info + pm_bias info < 2 ^ 32 * pm_tlen info"
    using le by (rule less_le_trans)
  also have "\<dots> < 2 ^ 32 * 2 ^ 32" using b(2) by simp
  finally have "?h * pm_tlen info + pm_bias info < 2 ^ 64" by simp
  then have m: "(?h * pm_tlen info + pm_bias info) mod 2 ^ 64 = ?h * pm_tlen info + pm_bias info"
    by simp
  from lt have d: "(?h * pm_tlen info + pm_bias info) div 2 ^ 32 < pm_tlen info"
    by (simp add: less_mult_imp_div_less mult.commute)
  with b(2) have "((?h * pm_tlen info + pm_bias info) div 2 ^ 32) mod 2 ^ 32 < pm_tlen info"
    by (meson le_less_trans mod_less_eq_dividend)
  then show ?thesis using assms(2,3) m by (simp add: pm_stepinfo_def Let_def)
qed

text \<open>C10.  Every table length of \<open>_mapInfo\<close> is coprime to every integer in [1,128];
  the probe step of every key lies in [1,128]; hence the probe sequence hash, hash + step,
  hash + 2 step, ... (mod tlen) reaches every slot, the probing loop of \<open>insert\<close> ends at
  a slot that is free or holds the key whenever the table has a free slot, and \<open>insert\<close>
  returns with the key in the table.\<close>

theorem pm_probe_reaches_free_slot:
  assumes info: "info \<in> set (take pm_mapSize pm_mapInfo)"
  shows "(\<forall>k. 1 \<le> k \<and> k \<le> 128 \<longrightarrow> coprime (pm_tlen info) k) \<and>
         (\<forall>pm p hash step. pm_stepinfo pm p = Inr (hash, step) \<longrightarrow> 1 \<le> step \<and> step \<le> 128) \<and>
         (\<forall>hash step i. hash < pm_tlen info \<and> 1 \<le> step \<and> step \<le> 128 \<and> i < pm_tlen info \<longrightarrow>
            (\<exists>k. (hash + k * step) mod pm_tlen info = i)) \<and>
         (\<forall>table p hash step.
            length table = pm_tlen info \<and> hash < pm_tlen info \<and> 1 \<le> step \<and> step \<le> 128 \<and>
            (\<exists>i<pm_tlen info. table ! i = 0) \<longrightarrow>
            (\<exists>j<pm_tlen info. pm_probe table p hash step = Some j \<and>
                               (table ! j = 0 \<or> table ! j = p))) \<and>
         (\<forall>pm p. pm_mapInfo ! pm_tinfo pm = info \<and> length (pm_table pm) = pm_tlen info \<and>
                 pm_used pm < pm_tcap info \<and> (\<exists>i<pm_tlen info. pm_table pm ! i = 0) \<longrightarrow>
            (\<exists>b pm'. pm_insert pm p = Some (Inr (b, pm')) \<and> p \<in> set (pm_table pm')))"
proof -
  have cop: "coprime (pm_tlen info) k" if "1 \<le> k" "k \<le> 128" for k
    using pm_tlen_coprime[OF info that] .
  from pm_tlen_bounds info have big: "128 < pm_tlen info" by (auto simp: list_all_iff)
  have reach: "\<exists>k. (hash + k * step) mod pm_tlen info = i"
    if "hash < pm_tlen info" "1 \<le> step" "step \<le> 128" "i < pm_tlen info" for hash step i
  proof -
    from cop[OF that(2,3)] have "coprime step (pm_tlen info)" by (simp add: coprime_commute)
    from pm_coprime_reach[OF this _ that(1,4)] that(2) show ?thesis by simp
  qed
  have probe: "\<exists>j<pm_tlen info. pm_probe table p hash step = Some j \<and>
                 (table ! j = 0 \<or> table ! j = p)"
    if "length table = pm_tlen info" "hash < pm_tlen info" "1 \<le> step" "step \<le> 128"
       "i < pm_tlen info" "table ! i = 0" for table p hash step i
  proof -
    from reach[OF that(2,3,4,5)] obtain k where "(hash + k * step) mod pm_tlen info = i" ..
    with that(6) have z: "table ! ((hash + k * step) mod pm_tlen info) = 0" by simp
    from that(4) big have "step \<le> pm_tlen info" by simp
    from pm_probe_finds[OF that(1) this that(2) z] show ?thesis by blast
  qed
  have ins: "\<exists>b pm'. pm_insert pm p = Some (Inr (b, pm')) \<and> p \<in> set (pm_table pm')"
    if "pm_mapInfo ! pm_tinfo pm = info" "length (pm_table pm) = pm_tlen info"
       "pm_used pm < pm_tcap info" "i < pm_tlen info" "pm_table pm ! i = 0" for pm p i
  proof -
    from pm_stepinfo_ok[OF info that(1,2)] obtain hash step
      where st: "pm_stepinfo pm p = Inr (hash, step)" by blast
    from pm_stepinfo_range[OF st] that(2)
    have r: "1 \<le> step" "step \<le> 128" "hash < pm_tlen info" by simp_all
    from probe[OF that(2) r(3) r(1) r(2) that(4,5)] obtain j
      where j: "j < pm_tlen info" "pm_probe (pm_table pm) p hash step = Some j"
               "pm_table pm ! j = 0 \<or> pm_table pm ! j = p" by blast
    show ?thesis
    proof (cases "pm_table pm ! j = 0")
      case True
      with st j that(1,2,3) show ?thesis
        by (cases "length pm_mapInfo - pm_tinfo pm")
           (auto simp: pm_insert_def Let_def set_update_memI)
    next
      case False
      with j(3) have "pm_table pm ! j = p" by simp
      with j(1) that(2) have "p \<in> set (pm_table pm)" by (metis nth_mem)
      with False st j show ?thesis
        by (cases "length pm_mapInfo - pm_tinfo pm") (auto simp: pm_insert_def)
    qed
  qed
  from cop reach probe ins pm_stepinfo_range show ?thesis by blast
qed


theorem pm_probe_reaches_free_slot_witness:
  "(132, 199, 46) \<in> set (take pm_mapSize pm_mapInfo) \<and>
   coprime (pm_tlen (132, 199, 46)) 128 \<and>
   (\<exists>k. (5 + k * 7) mod pm_tlen (132, 199, 46) = 3) \<and>
   (\<exists>j<pm_tlen (132, 199, 46). pm_probe (replicate 199 0) 42 5 7 = Some j \<and>
        (replicate 199 (0 :: 64 word) ! j = 0 \<or> replicate 199 0 ! j = (42 :: 64 word)))"
proof -
  have m: "(132, 199, 46) \<in> set (take pm_mapSize pm_mapInfo)"
    by (simp add: pm_mapSize_def pm_mapInfo_def)
  have t: "pm_tlen (132, 199, 46) = 199" by (simp add: pm_tlen_def)
  note inst = pm_probe_reaches_free_slot[OF m]
  note c1 = inst[THEN conjunct1, rule_format]
  note c3 = inst[THEN conjunct2, THEN conjunct2, THEN conjunct1, rule_format]
  note c4 = inst[THEN conjunct2, THEN conjunct2, THEN conjunct2, THEN conjunct1, rule_format]
  have c: "coprime (pm_tlen (132, 199, 46)) 128" by (rule c1) simp
  have r: "\<exists>k. (5 + k * 7) mod pm_tlen (132, 199, 46) = 3" by (rule c3) (simp add: t)
  have z: "\<exists>i<pm_tlen (132, 199, 46). replicate 199 (0 :: 64 word) ! i = 0"
    by (rule exI[of _ 0]) (simp add: t)
  have p: "\<exists>j<pm_tlen (132, 199, 46). pm_probe (replicate 199 0) 42 5 7 = Some j \<and>
           (replicate 199 (0 :: 64 word) ! j = 0 \<or> replicate 199 0 ! j = (42 :: 64 word))"
    using z by (intro c4) (simp add: t)
  from m c r p show ?thesis by (intro conjI)
qed

end
